theory Spec2Isabelle
  imports Complex_Main "HOL-Library.AList" "HOL-Library.Sublist"
begin

section \<open>Python values\<close>

text \<open>
  The handler of \<^verbatim>\<open>src/app/main.py\<close> moves dynamically typed, JSON-shaped values between
  the library calls and the response. A Python \<^verbatim>\<open>dict\<close> keeps insertion order, so it is an
  association list: \<^const>\<open>map_of\<close> reads it and \<^const>\<open>AList.update\<close> writes it (in place when
  the key exists, at the end otherwise). \<open>JSONResponse content\<close> is the framework's response
  object, which \<^verbatim>\<open>transcribe\<close> returns and \<^verbatim>\<open>transcribe_batch\<close> stores in a dict.
\<close>

datatype pyval =
    PNone
  | PBool bool
  | PInt int
  | PFloat real
  | PStr string
  | PList "pyval list"
  | PDict "(string \<times> pyval) list"
  | JSONResponse "(string \<times> pyval) list"

type_synonym pydict = "(string \<times> pyval) list"

text \<open>
  Exceptions. \<open>Error m\<close> is an exception raised inside an external call whose \<^verbatim>\<open>str(e)\<close> is
  \<open>m\<close>; the others are the exceptions the handler's own expressions can raise.
\<close>

datatype exc =
    Error string
  | KeyError string
  | AttributeError string string
  | TypeError string
  | UnboundLocalError string
  | HTTPException nat string

definition apos :: string where
  "apos = [CHR 0x27]"

definition digit_char :: "nat \<Rightarrow> char" where
  "digit_char n = ''0123456789'' ! n"

fun show_nat :: "nat \<Rightarrow> string" where
  "show_nat n = (if n < 10 then [digit_char n] else show_nat (n div 10) @ [digit_char (n mod 10)])"

declare show_nat.simps [simp del]

text \<open>
  \<^verbatim>\<open>str(e)\<close>. For \<^verbatim>\<open>HTTPException\<close> it is the framework's
  \<^verbatim>\<open>f"{self.status_code}: {self.detail}"\<close>; for \<^verbatim>\<open>KeyError\<close> the repr of the key; the
  others are the interpreter's messages (Python 3.11, the version the source names).
\<close>

fun exc_str :: "exc \<Rightarrow> string" where
  "exc_str (Error m) = m"
| "exc_str (KeyError k) = apos @ k @ apos"
| "exc_str (AttributeError t a) =
     apos @ t @ apos @ '' object has no attribute '' @ apos @ a @ apos"
| "exc_str (TypeError t) = apos @ t @ apos @ '' object is not iterable''"
| "exc_str (UnboundLocalError v) =
     ''cannot access local variable '' @ apos @ v @ apos
       @ '' where it is not associated with a value''"
| "exc_str (HTTPException status detail) = show_nat status @ '': '' @ detail"

fun type_name :: "pyval \<Rightarrow> string" where
  "type_name PNone = ''NoneType''"
| "type_name (PBool _) = ''bool''"
| "type_name (PInt _) = ''int''"
| "type_name (PFloat _) = ''float''"
| "type_name (PStr _) = ''str''"
| "type_name (PList _) = ''list''"
| "type_name (PDict _) = ''dict''"
| "type_name (JSONResponse _) = ''JSONResponse''"

text \<open>Truth value of an object, as \<^verbatim>\<open>not x\<close> and \<^verbatim>\<open>if x\<close> test it.\<close>

fun truthy :: "pyval \<Rightarrow> bool" where
  "truthy PNone = False"
| "truthy (PBool b) = b"
| "truthy (PInt n) = (n \<noteq> 0)"
| "truthy (PFloat x) = (x \<noteq> 0)"
| "truthy (PStr s) = (s \<noteq> [])"
| "truthy (PList xs) = (xs \<noteq> [])"
| "truthy (PDict d) = (d \<noteq> [])"
| "truthy (JSONResponse _) = True"

text \<open>An \<^verbatim>\<open>Optional[str]\<close> as a Python value, and its truth value.\<close>

fun opt_str :: "string option \<Rightarrow> pyval" where
  "opt_str None = PNone"
| "opt_str (Some s) = PStr s"

subsection \<open>Dictionary operations\<close>

definition dict_get :: "pydict \<Rightarrow> string \<Rightarrow> pyval \<Rightarrow> pyval" where
  \<comment> \<open>\<^verbatim>\<open>d.get(k, default)\<close>\<close>
  "dict_get d k dflt = (case map_of d k of None \<Rightarrow> dflt | Some v \<Rightarrow> v)"

definition dict_contains :: "string \<Rightarrow> pydict \<Rightarrow> bool" where
  \<comment> \<open>\<^verbatim>\<open>k in d\<close>\<close>
  "dict_contains k d = (map_of d k \<noteq> None)"

definition dict_getitem :: "pydict \<Rightarrow> string \<Rightarrow> exc + pyval" where
  \<comment> \<open>\<^verbatim>\<open>d[k]\<close>\<close>
  "dict_getitem d k = (case map_of d k of None \<Rightarrow> Inl (KeyError k) | Some v \<Rightarrow> Inr v)"

definition dict_setitem :: "pydict \<Rightarrow> string \<Rightarrow> pyval \<Rightarrow> pydict" where
  \<comment> \<open>\<^verbatim>\<open>d[k] = v\<close>\<close>
  "dict_setitem d k v = AList.update k v d"

subsection \<open>The operations of the text fallback\<close>

text \<open>
  \<^verbatim>\<open>for seg in x\<close>: a list yields its elements, a dict its keys, a string its characters;
  anything else is not iterable.
\<close>

fun py_iter :: "pyval \<Rightarrow> exc + pyval list" where
  "py_iter (PList xs) = Inr xs"
| "py_iter (PDict d) = Inr (map (\<lambda>kv. PStr (fst kv)) d)"
| "py_iter (PStr s) = Inr (map (\<lambda>c. PStr [c]) s)"
| "py_iter v = Inl (TypeError (type_name v))"

text \<open>\<^verbatim>\<open>x.get(k, default)\<close> on an arbitrary object: only a dict has the method.\<close>

fun py_get :: "pyval \<Rightarrow> string \<Rightarrow> pyval \<Rightarrow> exc + pyval" where
  "py_get (PDict d) k dflt = Inr (dict_get d k dflt)"
| "py_get v k dflt = Inl (AttributeError (type_name v) ''get'')"

text \<open>
  A character of a Python string is a code point; here it is a code point below 256.
  \<^verbatim>\<open>str.strip()\<close> removes the leading and trailing characters for which \<^verbatim>\<open>str.isspace\<close>
  holds. In this range they are the controls from tab to carriage return (9 to 13), the
  four separators 28 to 31, the space (32), the next-line control U+0085 (133) and the
  no-break space U+00A0 (160).
\<close>

definition isspace :: "char \<Rightarrow> bool" where
  "isspace c =
     (let n = (of_char c :: nat)
      in (9 \<le> n \<and> n \<le> 13) \<or> (28 \<le> n \<and> n \<le> 32) \<or> n = 133 \<or> n = 160)"

definition str_strip :: "string \<Rightarrow> string" where
  "str_strip s = rev (dropWhile isspace (rev (dropWhile isspace s)))"

fun py_strip :: "pyval \<Rightarrow> exc + string" where
  "py_strip (PStr s) = Inr (str_strip s)"
| "py_strip v = Inl (AttributeError (type_name v) ''strip'')"

fun str_join :: "string \<Rightarrow> string list \<Rightarrow> string" where
  "str_join sep [] = []"
| "str_join sep [x] = x"
| "str_join sep (x # y # ys) = x @ sep @ str_join sep (y # ys)"

text \<open>
  The list comprehension \<^verbatim>\<open>[seg.get("text", "").strip() for seg in ...]\<close>, element by
  element: the first element that raises ends it.
\<close>

fun seg_texts :: "pyval list \<Rightarrow> exc + string list" where
  "seg_texts [] = Inr []"
| "seg_texts (seg # segs) =
     (case py_get seg ''text'' (PStr []) of
        Inl e \<Rightarrow> Inl e
      | Inr t \<Rightarrow>
          (case py_strip t of
             Inl e \<Rightarrow> Inl e
           | Inr s \<Rightarrow>
               (case seg_texts segs of
                  Inl e \<Rightarrow> Inl e
                | Inr ss \<Rightarrow> Inr (s # ss))))"

section \<open>The world outside the handler\<close>

text \<open>
  Paths. The operating system resolves an absolute path component by component: empty
  components and \<open>.\<close> stay where they are, \<open>..\<close> goes to the parent (the root is its own
  parent). A location is the list of directory names from the root.
\<close>

fun split_on :: "char \<Rightarrow> string \<Rightarrow> string list" where
  "split_on c [] = [[]]"
| "split_on c (x # xs) =
     (if x = c then [] # split_on c xs
      else (case split_on c xs of
              [] \<Rightarrow> [[x]]
            | y # ys \<Rightarrow> (x # y) # ys))"

definition walk :: "string list \<Rightarrow> string \<Rightarrow> string list" where
  "walk loc c =
     (if c = [] \<or> c = ''.'' then loc
      else if c = ''..'' then butlast loc
      else loc @ [c])"

definition resolve :: "string \<Rightarrow> string list" where
  "resolve p = foldl walk [] (split_on (CHR ''/'') p)"

definition inside_tmp :: "string list \<Rightarrow> bool" where
  "inside_tmp loc = (take 1 loc = [''tmp''])"

text \<open>
  What a request can observe and change: the files (location to contents), the lines
  printed, and the external calls made, in order.
\<close>

datatype log_line =
    Processing_file "string option"
  | Step1_transcribing
  | Detected_language pyval
  | Step2_aligning
  | Alignment_completed
  | Alignment_warning string
  | Step3_diarization
  | Diarization_completed
  | Diarization_error string
  | Successfully_processed "string option"
  | Error_processing string
  | Cleaned_up string
  | Cleanup_warning string

datatype call =
    Open_wb string
  | Load_audio string
  | Model_transcribe
  | Load_align_model
  | Align
  | Diarization_pipeline
  | Diarize_model
  | Assign_word_speakers
  | Os_remove string

record world =
  fs :: "string list \<rightharpoonup> string"
  stdout :: "log_line list"
  calls :: "call list"

definition print :: "log_line \<Rightarrow> world \<Rightarrow> world" where
  "print l w = w\<lparr>stdout := stdout w @ [l]\<rparr>"

definition called :: "call \<Rightarrow> world \<Rightarrow> world" where
  "called c w = w\<lparr>calls := calls w @ [c]\<rparr>"

definition write_file :: "string \<Rightarrow> string \<Rightarrow> world \<Rightarrow> world" where
  "write_file path data w = w\<lparr>fs := (fs w)(resolve path \<mapsto> data)\<rparr>"

definition path_exists :: "string \<Rightarrow> world \<Rightarrow> bool" where
  \<comment> \<open>\<^verbatim>\<open>os.path.exists(path)\<close>\<close>
  "path_exists path w = (fs w (resolve path) \<noteq> None)"

text \<open>
  The configuration and the external collaborators. Each library call either raises or
  returns; \<open>open_wb\<close> and \<open>os_remove\<close> say whether opening a path for writing, and removing
  it, raise. \<open>whisperx_load_audio\<close> decodes the file at a path from its contents. The
  module constants \<^verbatim>\<open>DEVICE\<close> and \<^verbatim>\<open>BATCH_SIZE\<close> are fixed for a process and are part of the
  collaborators.
\<close>

record env =
  HF_TOKEN :: "string option"
  open_wb :: "string \<Rightarrow> exc option"
  os_remove :: "string \<Rightarrow> exc option"
  whisperx_load_audio :: "string \<Rightarrow> string option \<Rightarrow> exc + pyval"
  model_transcribe :: "pyval \<Rightarrow> string option \<Rightarrow> exc + pydict"
  whisperx_load_align_model :: "pyval \<Rightarrow> exc + pyval \<times> pyval"
  whisperx_align :: "pyval \<Rightarrow> pyval \<Rightarrow> pyval \<Rightarrow> pyval \<Rightarrow> exc + pydict"
  whisperx_DiarizationPipeline :: "string option \<Rightarrow> exc + pyval"
  diarize_model_call :: "pyval \<Rightarrow> pyval \<Rightarrow> exc + pyval"
  whisperx_assign_word_speakers :: "pyval \<Rightarrow> pydict \<Rightarrow> exc + pydict"

text \<open>An \<^verbatim>\<open>UploadFile\<close>: its name, and what \<^verbatim>\<open>await file.read()\<close> gives.\<close>

record upload =
  filename :: "string option"
  contents :: "exc + string"

section \<open>The handler \<^verbatim>\<open>transcribe\<close>\<close>

definition audio_path_of :: "string \<Rightarrow> string" where
  \<comment> \<open>\<^verbatim>\<open>f"/tmp/{file.filename}"\<close>\<close>
  "audio_path_of name = ''/tmp/'' @ name"

text \<open>
  Lines 122 to 123: \<^verbatim>\<open>open\<close> creates (or truncates) the file, then the upload is read and
  written.
\<close>

definition save_upload :: "env \<Rightarrow> upload \<Rightarrow> string \<Rightarrow> world \<Rightarrow> (exc + unit) \<times> world" where
  "save_upload env file audio_path w =
     (let w1 = called (Open_wb audio_path) w in
      case open_wb env audio_path of
        Some e \<Rightarrow> (Inl e, w1)
      | None \<Rightarrow>
          (let w2 = write_file audio_path [] w1 in
           case contents file of
             Inl e \<Rightarrow> (Inl e, w2)
           | Inr data \<Rightarrow> (Inr (), write_file audio_path data w2)))"

text \<open>Lines 127 to 134: decode the audio and run the transcription model.\<close>

definition run_transcription ::
  "env \<Rightarrow> string \<Rightarrow> string option \<Rightarrow> world \<Rightarrow> (exc + pyval \<times> pydict) \<times> world" where
  "run_transcription env audio_path language w =
     (let w1 = called (Load_audio audio_path) (print Step1_transcribing w) in
      case whisperx_load_audio env audio_path (fs w1 (resolve audio_path)) of
        Inl e \<Rightarrow> (Inl e, w1)
      | Inr audio \<Rightarrow>
          (let w2 = called Model_transcribe w1 in
           case model_transcribe env audio language of
             Inl e \<Rightarrow> (Inl e, w2)
           | Inr result \<Rightarrow> (Inr (audio, result), w2)))"

text \<open>Lines 139 to 142: the full text, from the segments when the result has none.\<close>

definition full_text :: "pydict \<Rightarrow> exc + pyval" where
  "full_text result =
     (let text = dict_get result ''text'' (PStr []) in
      if \<not> truthy text \<and> dict_contains ''segments'' result then
        (case dict_getitem result ''segments'' of
           Inl e \<Rightarrow> Inl e
         | Inr segments \<Rightarrow>
             (case py_iter segments of
                Inl e \<Rightarrow> Inl e
              | Inr segs \<Rightarrow>
                  (case seg_texts segs of
                     Inl e \<Rightarrow> Inl e
                   | Inr ts \<Rightarrow> Inr (PStr (str_join '' '' ts)))))
      else Inr text)"

text \<open>
  Lines 155 to 166, the library calls of the alignment block, with the calls made:
  load the alignment model, read \<^verbatim>\<open>result["segments"]\<close>, align.
\<close>

definition align_calls :: "env \<Rightarrow> pydict \<Rightarrow> pyval \<Rightarrow> pyval \<Rightarrow> (exc + pydict) \<times> call list" where
  "align_calls env result detected_language audio =
     (case whisperx_load_align_model env detected_language of
        Inl e \<Rightarrow> (Inl e, [Load_align_model])
      | Inr (model_a, metadata) \<Rightarrow>
          (case dict_getitem result ''segments'' of
             Inl e \<Rightarrow> (Inl e, [Load_align_model])
           | Inr segments \<Rightarrow>
               (whisperx_align env segments model_a metadata audio,
                [Load_align_model, Align])))"

text \<open>
  Lines 154 to 176, the body of the alignment \<^verbatim>\<open>try\<close>. It gives the exception raised, if
  any, and what the statements before it have assigned: \<^verbatim>\<open>response_data\<close> and the local
  variable \<^verbatim>\<open>result_aligned\<close>, which is \<open>None\<close> while nothing has been assigned to it.
  Releasing the alignment model (lines 172 to 174) changes none of these values and is
  left out, as is the release of the diarization model below.
\<close>

definition align_try ::
  "env \<Rightarrow> pydict \<Rightarrow> pyval \<Rightarrow> pyval \<Rightarrow> pydict \<Rightarrow> world
     \<Rightarrow> exc option \<times> pydict \<times> pydict option \<times> world" where
  "align_try env result detected_language audio response_data w =
     (case align_calls env result detected_language audio of
        (Inl e, cs) \<Rightarrow> (Some e, response_data, None, w\<lparr>calls := calls w @ cs\<rparr>)
      | (Inr result_aligned, cs) \<Rightarrow>
          (let w1 = w\<lparr>calls := calls w @ cs\<rparr>;
               rd1 = dict_setitem response_data ''word_segments''
                       (dict_get result_aligned ''word_segments'' (PList []))
           in case dict_getitem result ''segments'' of
                Inl e \<Rightarrow> (Some e, rd1, Some result_aligned, w1)
              | Inr segments \<Rightarrow>
                  (None,
                   dict_setitem rd1 ''segments''
                     (dict_get result_aligned ''segments'' segments),
                   Some result_aligned,
                   print Alignment_completed w1)))"

text \<open>Lines 152 to 179: an exception of the alignment block is a warning.\<close>

definition alignment ::
  "env \<Rightarrow> bool \<Rightarrow> pydict \<Rightarrow> pyval \<Rightarrow> pyval \<Rightarrow> pydict \<Rightarrow> world
     \<Rightarrow> pydict \<times> pydict option \<times> world" where
  "alignment env align result detected_language audio response_data w =
     (if align then
        (case align_try env result detected_language audio response_data
                (print Step2_aligning w) of
           (None, rd, result_aligned, w1) \<Rightarrow> (rd, result_aligned, w1)
         | (Some e, rd, result_aligned, w1) \<Rightarrow>
             (dict_setitem rd ''word_segments'' (PList []), result_aligned,
              print (Alignment_warning (exc_str e)) w1))
      else (response_data, None, w))"

text \<open>
  Lines 185 to 196, the library calls of the diarization block, with the calls made. The
  argument \<^verbatim>\<open>result_aligned if align else result\<close> is evaluated after the diarization
  model has run; reading the unassigned \<^verbatim>\<open>result_aligned\<close> raises.
\<close>

definition diarize_calls ::
  "env \<Rightarrow> bool \<Rightarrow> pyval \<Rightarrow> pydict \<Rightarrow> pydict option \<Rightarrow> (exc + pydict) \<times> call list" where
  "diarize_calls env align audio result result_aligned =
     (case whisperx_DiarizationPipeline env (HF_TOKEN env) of
        Inl e \<Rightarrow> (Inl e, [Diarization_pipeline])
      | Inr diarize_model \<Rightarrow>
          (case diarize_model_call env diarize_model audio of
             Inl e \<Rightarrow> (Inl e, [Diarization_pipeline, Diarize_model])
           | Inr diarize_segments \<Rightarrow>
               (case (if align
                      then (case result_aligned of
                              None \<Rightarrow> Inl (UnboundLocalError ''result_aligned'')
                            | Some ra \<Rightarrow> Inr ra)
                      else Inr result) of
                  Inl e \<Rightarrow> (Inl e, [Diarization_pipeline, Diarize_model])
                | Inr transcript \<Rightarrow>
                    (whisperx_assign_word_speakers env diarize_segments transcript,
                     [Diarization_pipeline, Diarize_model, Assign_word_speakers]))))"

text \<open>Lines 184 to 206, the body of the diarization \<^verbatim>\<open>try\<close>.\<close>

definition diarize_try ::
  "env \<Rightarrow> bool \<Rightarrow> pyval \<Rightarrow> pydict \<Rightarrow> pydict option \<Rightarrow> pydict \<Rightarrow> world
     \<Rightarrow> (exc + pydict) \<times> world" where
  "diarize_try env align audio result result_aligned response_data w =
     (case diarize_calls env align audio result result_aligned of
        (Inl e, cs) \<Rightarrow> (Inl e, w\<lparr>calls := calls w @ cs\<rparr>)
      | (Inr result_diarized, cs) \<Rightarrow>
          (let w1 = w\<lparr>calls := calls w @ cs\<rparr>;
               rd1 = dict_setitem response_data ''diarization''
                       (dict_get result_diarized ''segments'' (PList []))
           in case dict_getitem rd1 ''segments'' of
                Inl e \<Rightarrow> (Inl e, w1)
              | Inr current \<Rightarrow>
                  (Inr (dict_setitem rd1 ''segments''
                          (dict_get result_diarized ''segments'' current)),
                   print Diarization_completed w1)))"

text \<open>Lines 182 to 212: any exception of the diarization block becomes a 500.\<close>

definition diarization ::
  "env \<Rightarrow> bool \<Rightarrow> bool \<Rightarrow> pyval \<Rightarrow> pydict \<Rightarrow> pydict option \<Rightarrow> pydict \<Rightarrow> world
     \<Rightarrow> (exc + pydict) \<times> world" where
  "diarization env diarize align audio result result_aligned response_data w =
     (if diarize then
        (case diarize_try env align audio result result_aligned response_data
                (print Step3_diarization w) of
           (Inr rd, w1) \<Rightarrow> (Inr rd, w1)
         | (Inl e, w1) \<Rightarrow>
             (Inl (HTTPException 500 (''Diarization failed: '' @ exc_str e)),
              print (Diarization_error (exc_str e)) w1))
      else (Inr response_data, w))"

text \<open>Lines 136 to 215: from the transcription result to the response.\<close>

definition respond ::
  "env \<Rightarrow> upload \<Rightarrow> bool \<Rightarrow> bool \<Rightarrow> pyval \<Rightarrow> pydict \<Rightarrow> world \<Rightarrow> (exc + pyval) \<times> world" where
  "respond env file align diarize audio result w =
     (let detected_language = dict_get result ''language'' (PStr ''unknown'');
          w1 = print (Detected_language detected_language) w
      in case full_text result of
           Inl e \<Rightarrow> (Inl e, w1)
         | Inr text \<Rightarrow>
             (let response_data =
                    [(''text'', text),
                     (''segments'', dict_get result ''segments'' (PList [])),
                     (''language'', detected_language)]
              in case alignment env align result detected_language audio response_data w1 of
                   (rd1, result_aligned, w2) \<Rightarrow>
                     (case diarization env diarize align audio result result_aligned rd1 w2 of
                        (Inl e, w3) \<Rightarrow> (Inl e, w3)
                      | (Inr rd2, w3) \<Rightarrow>
                          (Inr (JSONResponse rd2),
                           print (Successfully_processed (filename file)) w3))))"

text \<open>Lines 120 to 215, the body of the outer \<^verbatim>\<open>try\<close>.\<close>

definition try_body ::
  "env \<Rightarrow> upload \<Rightarrow> bool \<Rightarrow> bool \<Rightarrow> string option \<Rightarrow> string \<Rightarrow> world
     \<Rightarrow> (exc + pyval) \<times> world" where
  "try_body env file align diarize language audio_path w =
     (case save_upload env file audio_path w of
        (Inl e, w1) \<Rightarrow> (Inl e, w1)
      | (Inr _, w1) \<Rightarrow>
          (case run_transcription env audio_path language
                  (print (Processing_file (filename file)) w1) of
             (Inl e, w2) \<Rightarrow> (Inl e, w2)
           | (Inr (audio, result), w2) \<Rightarrow> respond env file align diarize audio result w2))"

text \<open>Lines 221 to 228, the \<^verbatim>\<open>finally\<close> clause.\<close>

definition cleanup :: "env \<Rightarrow> string \<Rightarrow> world \<Rightarrow> world" where
  "cleanup env audio_path w =
     (if audio_path \<noteq> [] \<and> path_exists audio_path w then
        (let w1 = called (Os_remove audio_path) w in
         case os_remove env audio_path of
           None \<Rightarrow>
             print (Cleaned_up audio_path) (w1\<lparr>fs := (fs w1)(resolve audio_path := None)\<rparr>)
         | Some e \<Rightarrow> print (Cleanup_warning (exc_str e)) w1)
      else w)"

text \<open>
  Lines 89 to 228. The two checks come first and raise outside the \<^verbatim>\<open>try\<close>; every
  exception of the body, an \<^verbatim>\<open>HTTPException\<close> included, is caught by
  \<^verbatim>\<open>except Exception\<close> and wrapped.
\<close>

definition transcribe ::
  "env \<Rightarrow> upload \<Rightarrow> bool \<Rightarrow> bool \<Rightarrow> string option \<Rightarrow> world \<Rightarrow> (exc + pyval) \<times> world" where
  "transcribe env file align diarize language w =
     (if \<not> truthy (opt_str (filename file)) then
        (Inl (HTTPException 400 ''No file provided''), w)
      else if diarize \<and> \<not> truthy (opt_str (HF_TOKEN env)) then
        (Inl (HTTPException 400
                ''Diarization requires HF_TOKEN environment variable to be set''), w)
      else
        (let audio_path = audio_path_of (case filename file of Some name \<Rightarrow> name | None \<Rightarrow> []) in
         case try_body env file align diarize language audio_path w of
           (Inr response, w1) \<Rightarrow> (Inr response, cleanup env audio_path w1)
         | (Inl e, w1) \<Rightarrow>
             (Inl (HTTPException 500 (''Processing failed: '' @ exc_str e)),
              cleanup env audio_path (print (Error_processing (exc_str e)) w1))))"

section \<open>The handler \<^verbatim>\<open>transcribe_batch\<close>\<close>

definition batch_entry :: "upload \<Rightarrow> exc + pyval \<Rightarrow> pyval" where
  "batch_entry file r =
     (case r of
        Inr result \<Rightarrow>
          PDict [(''filename'', opt_str (filename file)),
                 (''status'', PStr ''success''),
                 (''result'', result)]
      | Inl e \<Rightarrow>
          PDict [(''filename'', opt_str (filename file)),
                 (''status'', PStr ''error''),
                 (''error'', PStr (exc_str e))])"

fun batch_loop ::
  "env \<Rightarrow> upload list \<Rightarrow> bool \<Rightarrow> bool \<Rightarrow> string option \<Rightarrow> pyval list \<Rightarrow> world
     \<Rightarrow> pyval list \<times> world" where
  "batch_loop env [] align diarize language results w = (results, w)"
| "batch_loop env (file # files) align diarize language results w =
     (case transcribe env file align diarize language w of
        (r, w1) \<Rightarrow>
          batch_loop env files align diarize language (results @ [batch_entry file r]) w1)"

definition transcribe_batch ::
  "env \<Rightarrow> upload list \<Rightarrow> bool \<Rightarrow> bool \<Rightarrow> string option \<Rightarrow> world \<Rightarrow> (exc + pyval) \<times> world" where
  "transcribe_batch env files align diarize language w =
     (case batch_loop env files align diarize language [] w of
        (results, w1) \<Rightarrow> (Inr (PDict [(''results'', PList results)]), w1))"

section \<open>Notions of the specification\<close>

text \<open>
  The request passed both checks and its first stage went through: the upload was saved
  under the name \<open>name\<close>, decoded to \<open>audio\<close> and transcribed to \<open>result\<close>.
\<close>

definition accepted :: "env \<Rightarrow> upload \<Rightarrow> bool \<Rightarrow> string \<Rightarrow> bool" where
  "accepted env file diarize name =
     (filename file = Some name \<and> name \<noteq> [] \<and> (\<not> diarize \<or> truthy (opt_str (HF_TOKEN env))))"

definition transcribed ::
  "env \<Rightarrow> upload \<Rightarrow> string option \<Rightarrow> string \<Rightarrow> pyval \<Rightarrow> pydict \<Rightarrow> bool" where
  "transcribed env file language name audio result =
     (open_wb env (audio_path_of name) = None \<and>
      (case contents file of
         Inl e \<Rightarrow> False
       | Inr data \<Rightarrow>
           whisperx_load_audio env (audio_path_of name) (Some data) = Inr audio \<and>
           model_transcribe env audio language = Inr result))"

text \<open>
  The results of the two optional stages, present when the stage ran and succeeded. For
  the alignment it is the value of the variable \<^verbatim>\<open>result_aligned\<close> after line 179.
\<close>

definition result_aligned_after :: "env \<Rightarrow> bool \<Rightarrow> pydict \<Rightarrow> pyval \<Rightarrow> pydict option" where
  "result_aligned_after env align result audio =
     (if align then
        (case fst (align_calls env result (dict_get result ''language'' (PStr ''unknown'')) audio) of
           Inl e \<Rightarrow> None
         | Inr result_aligned \<Rightarrow> Some result_aligned)
      else None)"

definition result_diarized_after ::
  "env \<Rightarrow> bool \<Rightarrow> bool \<Rightarrow> pydict \<Rightarrow> pyval \<Rightarrow> pydict option" where
  "result_diarized_after env diarize align result audio =
     (if diarize then
        (case fst (diarize_calls env align audio result
                     (result_aligned_after env align result audio)) of
           Inl e \<Rightarrow> None
         | Inr result_diarized \<Rightarrow> Some result_diarized)
      else None)"

text \<open>
  The most refined segment list, in the words of the specification: the diarized
  segments if there are any, else the aligned ones, else the raw ones. A stage result
  that carries no \<open>segments\<close> entry passes the list of the stage before it on.
\<close>

definition most_refined :: "pyval \<Rightarrow> pydict option \<Rightarrow> pydict option \<Rightarrow> pyval" where
  "most_refined raw aligned diarized =
     (let best_aligned = (case aligned of None \<Rightarrow> raw | Some ra \<Rightarrow> dict_get ra ''segments'' raw)
      in case diarized of
           None \<Rightarrow> best_aligned
         | Some rd \<Rightarrow> dict_get rd ''segments'' best_aligned)"

text \<open>
  The text fallback, in terms that do not mention the handler. \<open>stripped s t\<close>: the text
  \<open>t\<close> is \<open>s\<close> without its leading and trailing whitespace, so \<open>s\<close> is \<open>t\<close> between two
  runs of whitespace and \<open>t\<close> neither starts nor ends with whitespace. \<open>spaced ts\<close>: the
  texts \<open>ts\<close> in order, with a single space between neighbours.
\<close>

definition stripped :: "string \<Rightarrow> string \<Rightarrow> bool" where
  "stripped s t =
     (\<exists>before after.
        s = before @ t @ after \<and> list_all isspace before \<and> list_all isspace after \<and>
        (t \<noteq> [] \<longrightarrow> \<not> isspace (hd t) \<and> \<not> isspace (last t)))"

definition spaced :: "string list \<Rightarrow> string" where
  "spaced ts = drop 1 (concat (map (\<lambda>t. CHR '' '' # t) ts))"

text \<open>
  A segment \<open>d\<close> carries the text \<open>s\<close>: its \<open>text\<close> entry is the string \<open>s\<close>, or it has no
  such entry and \<open>s\<close> is empty.
\<close>

definition carries_text :: "pydict \<Rightarrow> string \<Rightarrow> bool" where
  "carries_text d s =
     (map_of d ''text'' = Some (PStr s) \<or> (map_of d ''text'' = None \<and> s = []))"

text \<open>
  The exception that ends the diarization calls when \<^verbatim>\<open>align\<close> is set and
  \<^verbatim>\<open>result_aligned\<close> is unassigned: the one of the diarization model if it raises, else
  the one of reading the variable.
\<close>

definition unassigned_alignment_exc :: "env \<Rightarrow> pyval \<Rightarrow> exc" where
  "unassigned_alignment_exc env audio =
     (case whisperx_DiarizationPipeline env (HF_TOKEN env) of
        Inl e \<Rightarrow> e
      | Inr diarize_model \<Rightarrow>
          (case diarize_model_call env diarize_model audio of
             Inl e \<Rightarrow> e
           | Inr diarize_segments \<Rightarrow> UnboundLocalError ''result_aligned''))"

section \<open>A sample deployment\<close>

definition demo_result :: pydict where
  "demo_result =
     [(''segments'',
       PList [PDict [(''start'', PFloat 0), (''end'', PFloat 2), (''text'', PStr '' Hello'')],
              PDict [(''start'', PFloat 2), (''end'', PFloat 3), (''text'', PStr '' world '')]]),
      (''language'', PStr ''en'')]"

definition demo_aligned :: pydict where
  "demo_aligned =
     [(''segments'',
       PList [PDict [(''text'', PStr '' Hello world''),
                     (''words'', PList [PStr ''Hello'', PStr ''world''])]]),
      (''word_segments'',
       PList [PDict [(''word'', PStr ''Hello'')], PDict [(''word'', PStr ''world'')]])]"

definition demo_diarized :: pydict where
  "demo_diarized =
     [(''segments'',
       PList [PDict [(''text'', PStr '' Hello world''), (''speaker'', PStr ''SPEAKER_00'')]])]"

definition demo_env :: env where
  "demo_env =
     \<lparr>HF_TOKEN = Some ''hf_token'',
      open_wb = (\<lambda>path. None),
      os_remove = (\<lambda>path. None),
      whisperx_load_audio =
        (\<lambda>path data. case data of
                       None \<Rightarrow> Inl (Error ''Failed to load audio'')
                     | Some d \<Rightarrow> Inr (PStr d)),
      model_transcribe = (\<lambda>audio language. Inr demo_result),
      whisperx_load_align_model = (\<lambda>language_code. Inr (PStr ''model_a'', PStr ''metadata'')),
      whisperx_align = (\<lambda>segments model_a metadata audio. Inr demo_aligned),
      whisperx_DiarizationPipeline = (\<lambda>token. Inr (PStr ''pipeline'')),
      diarize_model_call = (\<lambda>diarize_model audio. Inr (PStr ''turns'')),
      whisperx_assign_word_speakers = (\<lambda>diarize_segments transcript. Inr demo_diarized)\<rparr>"

definition demo_file :: upload where
  "demo_file = \<lparr>filename = Some ''a.wav'', contents = Inr ''RIFF''\<rparr>"

definition empty_world :: world where
  "empty_world = \<lparr>fs = Map.empty, stdout = [], calls = []\<rparr>"

text \<open>The same deployment with a credential the model hub refuses.\<close>

definition demo_env_no_diarization :: env where
  "demo_env_no_diarization =
     demo_env\<lparr>whisperx_DiarizationPipeline :=
                (\<lambda>token. Inl (Error ''Could not download pyannote/speaker-diarization''))\<rparr>"

text \<open>The same deployment without an alignment model for the detected language.\<close>

definition demo_env_no_align_model :: env where
  "demo_env_no_align_model =
     demo_env\<lparr>whisperx_load_align_model :=
                (\<lambda>language_code. Inl (Error ''No default align-model for language: en''))\<rparr>"

text \<open>The same deployment with an alignment that runs out of memory.\<close>

definition demo_env_align_raises :: env where
  "demo_env_align_raises =
     demo_env\<lparr>whisperx_align :=
                (\<lambda>segments model_a metadata audio. Inl (Error ''CUDA out of memory''))\<rparr>"

text \<open>The same deployment on a file system that refuses to remove files.\<close>

definition demo_env_remove_raises :: env where
  "demo_env_remove_raises =
     demo_env\<lparr>os_remove := (\<lambda>path. Some (Error ''Permission denied''))\<rparr>"

text \<open>An upload whose filename climbs out of the temporary directory.\<close>

definition demo_traversal :: upload where
  "demo_traversal = \<lparr>filename = Some ''../etc/passwd'', contents = Inr ''RIFF''\<rparr>"

text \<open>
  The same deployment with a transcription model that supplies the combined text, and
  with one that finds nothing.
\<close>

definition demo_env_with_text :: env where
  "demo_env_with_text =
     demo_env\<lparr>model_transcribe :=
                (\<lambda>audio language. Inr ((''text'', PStr ''Hello, world.'') # demo_result))\<rparr>"

definition demo_env_silence :: env where
  "demo_env_silence =
     demo_env\<lparr>model_transcribe := (\<lambda>audio language. Inr [(''language'', PStr ''en'')])\<rparr>"

section \<open>Validation\<close>

text \<open>
  C5. A request whose upload has no filename (none at all, or the empty string) is
  rejected with status 400, and nothing has happened by then: the world is the one the
  request found, so no temporary file has been created and no model has been invoked.
\<close>

theorem no_filename_rejected:
  assumes "filename file = None \<or> filename file = Some []"
  shows "transcribe env file align diarize language w =
           (Inl (HTTPException 400 ''No file provided''), w)"
  using assms by (auto simp: transcribe_def)

theorem no_filename_rejected_witness:
  "(filename (demo_file\<lparr>filename := Some []\<rparr>) = None \<or>
    filename (demo_file\<lparr>filename := Some []\<rparr>) = Some []) \<and>
   transcribe demo_env (demo_file\<lparr>filename := Some []\<rparr>) True False None empty_world =
     (Inl (HTTPException 400 ''No file provided''), empty_world)"
  using no_filename_rejected
          [of "demo_file\<lparr>filename := Some []\<rparr>" demo_env True False None empty_world]
  by simp

text \<open>
  C4. A request with \<open>diarize\<close> set, served by a process without a diarization credential
  (\<^verbatim>\<open>HF_TOKEN\<close> unset or empty), is rejected with status 400, and the world is the one the
  request found: the upload has not been written and the transcription model has not
  been invoked. The detail is the one of the first check when the filename is missing
  as well.
\<close>

theorem diarize_without_token_rejected:
  assumes "diarize" and "HF_TOKEN env = None \<or> HF_TOKEN env = Some []"
  shows "transcribe env file align diarize language w =
           (Inl (HTTPException 400
                  (if filename file = None \<or> filename file = Some []
                   then ''No file provided''
                   else ''Diarization requires HF_TOKEN environment variable to be set'')),
            w)"
  using assms by (cases "filename file") (auto simp: transcribe_def)

theorem diarize_without_token_rejected_witness:
  "(HF_TOKEN (demo_env\<lparr>HF_TOKEN := None\<rparr>) = None \<or>
    HF_TOKEN (demo_env\<lparr>HF_TOKEN := None\<rparr>) = Some []) \<and>
   transcribe (demo_env\<lparr>HF_TOKEN := None\<rparr>) demo_file True True None empty_world =
     (Inl (HTTPException 400
            ''Diarization requires HF_TOKEN environment variable to be set''),
      empty_world)"
  using diarize_without_token_rejected
          [of True "demo_env\<lparr>HF_TOKEN := None\<rparr>" demo_file True None empty_world]
  by (simp add: demo_file_def)

section \<open>Stage lemmas\<close>

lemma show_nat_500: "show_nat 500 = ''500''"
  by (simp add: show_nat.simps digit_char_def)

lemma map_of_setitem: "map_of (dict_setitem d k v) = (map_of d)(k \<mapsto> v)"
  by (simp add: dict_setitem_def update_conv')

lemmas stage_defs =
  try_body_def save_upload_def run_transcription_def respond_def alignment_def align_try_def
  align_calls_def diarization_def diarize_try_def diarize_calls_def

lemmas demo_defs =
  demo_env_def demo_file_def demo_result_def demo_aligned_def demo_diarized_def empty_world_def

lemmas eval_defs =
  transcribe_def stage_defs cleanup_def audio_path_of_def called_def print_def write_file_def
  path_exists_def full_text_def dict_get_def dict_contains_def dict_getitem_def dict_setitem_def
  str_strip_def isspace_def apos_def show_nat_500 accepted_def transcribed_def
  result_aligned_after_def result_diarized_after_def most_refined_def
  Let_def

text \<open>An accepted request runs the body of the \<^verbatim>\<open>try\<close> on \<^verbatim>\<open>/tmp/\<close> followed by its name.\<close>

lemma transcribe_accepted:
  assumes "accepted env file diarize name"
  shows "transcribe env file align diarize language w =
           (case try_body env file align diarize language (audio_path_of name) w of
              (Inr response, w1) \<Rightarrow> (Inr response, cleanup env (audio_path_of name) w1)
            | (Inl e, w1) \<Rightarrow>
                (Inl (HTTPException 500 (''Processing failed: '' @ exc_str e)),
                 cleanup env (audio_path_of name) (print (Error_processing (exc_str e)) w1)))"
  using assms by (auto simp: accepted_def transcribe_def Let_def)

lemma try_body_transcribed:
  assumes "transcribed env file language name audio result"
  shows "\<exists>w1. try_body env file align diarize language (audio_path_of name) w
                = respond env file align diarize audio result w1"
  using assms
  by (auto simp: transcribed_def try_body_def save_upload_def run_transcription_def Let_def
        called_def print_def write_file_def split: sum.splits)

text \<open>A request that succeeds was accepted and transcribed.\<close>

lemma success_accepted:
  assumes "transcribe env file align diarize language w = (Inr v, w')"
  shows "\<exists>name. accepted env file diarize name"
  using assms
  by (cases "filename file") (auto simp: transcribe_def accepted_def split: if_splits)

lemma try_body_success:
  assumes "try_body env file align diarize language (audio_path_of name) w = (Inr v, w')"
  shows "\<exists>audio result w1. transcribed env file language name audio result \<and>
           respond env file align diarize audio result w1 = (Inr v, w')"
  using assms
  by (auto simp: transcribed_def try_body_def save_upload_def run_transcription_def Let_def
        called_def print_def write_file_def split: sum.splits option.splits prod.splits)

lemma transcribe_success:
  assumes "transcribe env file align diarize language w = (Inr v, w')"
  shows "\<exists>name audio result w1 w2.
           accepted env file diarize name \<and> transcribed env file language name audio result \<and>
           respond env file align diarize audio result w1 = (Inr v, w2)"
proof -
  obtain name where acc: "accepted env file diarize name"
    using success_accepted [OF assms] by blast
  obtain w2 where "try_body env file align diarize language (audio_path_of name) w = (Inr v, w2)"
    using assms by (auto simp: transcribe_accepted [OF acc] split: prod.splits sum.splits)
  from try_body_success [OF this] acc show ?thesis by blast
qed

text \<open>What the alignment block leaves behind.\<close>

lemma alignment_result_aligned:
  "fst (snd (alignment env align result (dict_get result ''language'' (PStr ''unknown''))
               audio rd w))
     = result_aligned_after env align result audio"
  by (auto simp: alignment_def align_try_def result_aligned_after_def Let_def dict_getitem_def
        align_calls_def split: prod.splits sum.splits option.splits)

lemma alignment_segments:
  assumes "map_of rd ''segments'' = Some (dict_get result ''segments'' (PList []))"
  shows "map_of (fst (alignment env align result (dict_get result ''language'' (PStr ''unknown''))
                        audio rd w)) ''segments''
           = Some (most_refined (dict_get result ''segments'' (PList []))
                     (result_aligned_after env align result audio) None)"
  using assms
  by (auto simp: alignment_def align_try_def result_aligned_after_def Let_def dict_getitem_def
        dict_get_def align_calls_def most_refined_def map_of_setitem
        split: prod.splits sum.splits option.splits)

lemma alignment_text:
  "map_of (fst (alignment env align result lang audio rd w)) ''text'' = map_of rd ''text''"
  by (auto simp: alignment_def align_try_def Let_def map_of_setitem
        split: prod.splits sum.splits option.splits)

text \<open>What a successful diarization block leaves behind.\<close>

lemma diarization_success:
  assumes "diarization env diarize align audio result ra rd w = (Inr rd', w')"
    and "map_of rd ''segments'' = Some current"
  shows "map_of rd' ''text'' = map_of rd ''text'' \<and>
         map_of rd' ''segments'' =
           Some (case (if diarize
                       then (case fst (diarize_calls env align audio result ra) of
                               Inl e \<Rightarrow> None
                             | Inr r \<Rightarrow> Some r)
                       else None) of
                   None \<Rightarrow> current
                 | Some r \<Rightarrow> dict_get r ''segments'' current)"
  using assms
  by (auto simp: diarization_def diarize_try_def Let_def dict_getitem_def map_of_setitem
        split: prod.splits sum.splits option.splits if_splits)

lemma respond_success:
  assumes "respond env file align diarize audio result w = (Inr v, w')"
  shows "\<exists>t rd. full_text result = Inr t \<and> v = JSONResponse rd \<and>
           map_of rd ''text'' = Some t \<and>
           map_of rd ''segments'' =
             Some (most_refined (dict_get result ''segments'' (PList []))
                     (result_aligned_after env align result audio)
                     (result_diarized_after env diarize align result audio))"
proof -
  let ?lang = "dict_get result ''language'' (PStr ''unknown'')"
  let ?raw = "dict_get result ''segments'' (PList [])"
  obtain t where ft: "full_text result = Inr t"
    using assms by (cases "full_text result") (auto simp: respond_def Let_def)
  let ?rd0 = "[(''text'', t), (''segments'', ?raw), (''language'', ?lang)]"
  let ?w1 = "print (Detected_language ?lang) w"
  obtain rd1 ra w2 where al: "alignment env align result ?lang audio ?rd0 ?w1 = (rd1, ra, w2)"
    by (metis prod_cases3)
  have ra: "ra = result_aligned_after env align result audio"
    using alignment_result_aligned [of env align result audio ?rd0 ?w1] al by simp
  have seg1: "map_of rd1 ''segments'' = Some (most_refined ?raw ra None)"
    using alignment_segments [of ?rd0 result env align audio ?w1] al ra by simp
  have text1: "map_of rd1 ''text'' = Some t"
    using alignment_text [of env align result ?lang audio ?rd0 ?w1] al by simp
  obtain rd2 w3 where di: "diarization env diarize align audio result ra rd1 w2 = (Inr rd2, w3)"
    and v: "v = JSONResponse rd2"
    using assms ft al by (auto simp: respond_def Let_def split: prod.splits sum.splits)
  have "map_of rd2 ''text'' = Some t"
    using diarization_success [OF di seg1] text1 by simp
  moreover have "map_of rd2 ''segments'' =
      Some (most_refined ?raw ra (result_diarized_after env diarize align result audio))"
    using diarization_success [OF di seg1] ra
    by (auto simp: result_diarized_after_def most_refined_def Let_def
          split: option.splits sum.splits)
  ultimately show ?thesis using ft v ra by blast
qed

text \<open>An exception among the diarization calls fails the request.\<close>

lemma respond_diarize_raises:
  assumes "full_text result = Inr t" and "diarize"
    and "fst (diarize_calls env align audio result
                (result_aligned_after env align result audio)) = Inl e"
  shows "fst (respond env file align diarize audio result w) =
           Inl (HTTPException 500 (''Diarization failed: '' @ exc_str e))"
proof -
  let ?lang = "dict_get result ''language'' (PStr ''unknown'')"
  let ?rd0 = "[(''text'', t), (''segments'', dict_get result ''segments'' (PList [])),
               (''language'', ?lang)]"
  let ?w1 = "print (Detected_language ?lang) w"
  obtain rd1 ra w2 where al: "alignment env align result ?lang audio ?rd0 ?w1 = (rd1, ra, w2)"
    by (metis prod_cases3)
  have ra: "ra = result_aligned_after env align result audio"
    using alignment_result_aligned [of env align result audio ?rd0 ?w1] al by simp
  show ?thesis
    using assms al ra
    by (auto simp: respond_def Let_def diarization_def diarize_try_def
          split: prod.splits sum.splits)
qed

lemma transcribe_diarize_raises:
  assumes "accepted env file diarize name"
    and "transcribed env file language name audio result"
    and "full_text result = Inr t" and "diarize"
    and "fst (diarize_calls env align audio result
                (result_aligned_after env align result audio)) = Inl e"
  shows "fst (transcribe env file align diarize language w) =
           Inl (HTTPException 500
                  (''Processing failed: 500: Diarization failed: '' @ exc_str e))"
proof -
  obtain w1 where tb: "try_body env file align diarize language (audio_path_of name) w
                         = respond env file align diarize audio result w1"
    using try_body_transcribed [OF assms(2)] by blast
  obtain r w2 where rp: "respond env file align diarize audio result w1 = (r, w2)"
    by (cases "respond env file align diarize audio result w1")
  have "r = Inl (HTTPException 500 (''Diarization failed: '' @ exc_str e))"
    using respond_diarize_raises [OF assms(3,4,5)] rp by (metis fst_conv)
  then show ?thesis
    using tb rp by (simp add: transcribe_accepted [OF assms(1)] show_nat_500)
qed

text \<open>
  After a failed alignment the variable \<^verbatim>\<open>result_aligned\<close> is unassigned, and the
  diarization calls end with an exception whatever the diarization model does.
\<close>

lemma align_raises_unassigned:
  assumes "fst (align_calls env result (dict_get result ''language'' (PStr ''unknown'')) audio)
             = Inl e"
  shows "result_aligned_after env True result audio = None"
  using assms by (simp add: result_aligned_after_def)

lemma diarize_calls_unassigned:
  "fst (diarize_calls env True audio result None) = Inl (unassigned_alignment_exc env audio)"
  by (simp add: diarize_calls_def unassigned_alignment_exc_def split: sum.splits)

section \<open>Stage failures\<close>

text \<open>
  C6. When the diarization stage of an accepted and transcribed request raises an
  exception \<open>e\<close>, the request fails with status 500, and the detail ends with the
  message of \<open>e\<close>: it is \<^verbatim>\<open>Processing failed: 500: Diarization failed: \<close> followed by
  \<^verbatim>\<open>str(e)\<close>, since the 500 raised by the diarization handler is caught and wrapped once
  more by the outer handler.
\<close>

theorem diarization_failure_is_500:
  assumes "accepted env file diarize name"
    and "transcribed env file language name audio result"
    and "full_text result = Inr t" and "diarize"
    and "fst (diarize_calls env align audio result
                (result_aligned_after env align result audio)) = Inl e"
  shows "fst (transcribe env file align diarize language w) =
           Inl (HTTPException 500
                  (''Processing failed: 500: Diarization failed: '' @ exc_str e))"
  using assms by (rule transcribe_diarize_raises)

theorem diarization_failure_is_500_witness:
  "accepted demo_env_no_diarization demo_file True ''a.wav'' \<and>
   transcribed demo_env_no_diarization demo_file None ''a.wav'' (PStr ''RIFF'') demo_result \<and>
   full_text demo_result = Inr (PStr ''Hello world'') \<and>
   fst (diarize_calls demo_env_no_diarization False (PStr ''RIFF'') demo_result
          (result_aligned_after demo_env_no_diarization False demo_result (PStr ''RIFF'')))
     = Inl (Error ''Could not download pyannote/speaker-diarization'') \<and>
   fst (transcribe demo_env_no_diarization demo_file False True None empty_world) =
     Inl (HTTPException 500
            (''Processing failed: 500: Diarization failed: ''
               @ exc_str (Error ''Could not download pyannote/speaker-diarization'')))"
proof -
  have a: "accepted demo_env_no_diarization demo_file True ''a.wav''"
    by (simp add: accepted_def demo_env_no_diarization_def demo_defs)
  have b: "transcribed demo_env_no_diarization demo_file None ''a.wav'' (PStr ''RIFF'')
             demo_result"
    by (simp add: transcribed_def demo_env_no_diarization_def demo_env_def demo_file_def)
  have c: "full_text demo_result = Inr (PStr ''Hello world'')"
    by (simp add: full_text_def demo_result_def dict_get_def dict_contains_def dict_getitem_def
          str_strip_def isspace_def)
  have d: "fst (diarize_calls demo_env_no_diarization False (PStr ''RIFF'') demo_result
             (result_aligned_after demo_env_no_diarization False demo_result (PStr ''RIFF'')))
           = Inl (Error ''Could not download pyannote/speaker-diarization'')"
    by (simp add: diarize_calls_def demo_env_no_diarization_def demo_env_def)
  show ?thesis
    using a b c d diarization_failure_is_500 [OF a b c _ d, of empty_world] by simp
qed

text \<open>
  C9. With both \<open>align\<close> and \<open>diarize\<close> set and a credential configured, an exception in
  the alignment stage leaves \<^verbatim>\<open>result_aligned\<close> unassigned. The diarization block then
  ends with an exception in every case (the one of reading the unassigned variable,
  unless the diarization model has raised before), so the request fails with status 500
  and does not fall back to the unaligned segments.
\<close>

theorem failed_alignment_breaks_diarization:
  assumes "accepted env file diarize name"
    and "transcribed env file language name audio result"
    and "full_text result = Inr t" and "align" and "diarize"
    and "fst (align_calls env result (dict_get result ''language'' (PStr ''unknown'')) audio)
           = Inl e"
  shows "result_aligned_after env align result audio = None \<and>
         fst (transcribe env file align diarize language w) =
           Inl (HTTPException 500
                  (''Processing failed: 500: Diarization failed: ''
                     @ exc_str (unassigned_alignment_exc env audio))) \<and>
         (\<forall>diarize_model diarize_segments.
            whisperx_DiarizationPipeline env (HF_TOKEN env) = Inr diarize_model \<longrightarrow>
            diarize_model_call env diarize_model audio = Inr diarize_segments \<longrightarrow>
            unassigned_alignment_exc env audio = UnboundLocalError ''result_aligned'')"
proof -
  have ra: "result_aligned_after env align result audio = None"
    using align_raises_unassigned [OF assms(6)] assms(4) by simp
  have "fst (diarize_calls env align audio result
               (result_aligned_after env align result audio))
          = Inl (unassigned_alignment_exc env audio)"
    using diarize_calls_unassigned [of env audio result] ra assms(4) by simp
  from transcribe_diarize_raises [OF assms(1,2,3,5) this] ra show ?thesis
    by (simp add: unassigned_alignment_exc_def)
qed

theorem failed_alignment_breaks_diarization_witness:
  "accepted demo_env_no_align_model demo_file True ''a.wav'' \<and>
   transcribed demo_env_no_align_model demo_file None ''a.wav'' (PStr ''RIFF'') demo_result \<and>
   full_text demo_result = Inr (PStr ''Hello world'') \<and>
   fst (align_calls demo_env_no_align_model demo_result
          (dict_get demo_result ''language'' (PStr ''unknown'')) (PStr ''RIFF''))
     = Inl (Error ''No default align-model for language: en'') \<and>
   result_aligned_after demo_env_no_align_model True demo_result (PStr ''RIFF'') = None \<and>
   fst (transcribe demo_env_no_align_model demo_file True True None empty_world) =
     Inl (HTTPException 500
            (''Processing failed: 500: Diarization failed: ''
               @ exc_str (UnboundLocalError ''result_aligned'')))"
proof -
  have a: "accepted demo_env_no_align_model demo_file True ''a.wav''"
    by (simp add: accepted_def demo_env_no_align_model_def demo_defs)
  have b: "transcribed demo_env_no_align_model demo_file None ''a.wav'' (PStr ''RIFF'')
             demo_result"
    by (simp add: transcribed_def demo_env_no_align_model_def demo_env_def demo_file_def)
  have c: "full_text demo_result = Inr (PStr ''Hello world'')"
    by (simp add: full_text_def demo_result_def dict_get_def dict_contains_def dict_getitem_def
          str_strip_def isspace_def)
  have d: "fst (align_calls demo_env_no_align_model demo_result
                  (dict_get demo_result ''language'' (PStr ''unknown'')) (PStr ''RIFF''))
             = Inl (Error ''No default align-model for language: en'')"
    by (simp add: align_calls_def demo_env_no_align_model_def demo_env_def)
  have e: "unassigned_alignment_exc demo_env_no_align_model (PStr ''RIFF'')
             = UnboundLocalError ''result_aligned''"
    by (simp add: unassigned_alignment_exc_def demo_env_no_align_model_def demo_env_def)
  show ?thesis
    using a b c d e
      failed_alignment_breaks_diarization [OF a b c _ _ d, of True empty_world]
    by simp
qed

text \<open>
  C1. The handler catches an exception of the alignment stage, prints a warning and
  sets \<open>word_segments\<close> to the empty list; without diarization the response then carries
  the unaligned segments. With diarization the same failure ends in status 500: the
  diarization block reads \<^verbatim>\<open>result_aligned\<close>, which the failed alignment never assigned.
  Both runs, on the sample deployment with an alignment that raises:
\<close>

theorem alignment_failure_fatal_with_diarization:
  "fst (transcribe demo_env_align_raises demo_file True False None empty_world) =
     Inr (JSONResponse
            [(''text'', PStr ''Hello world''),
             (''segments'', dict_get demo_result ''segments'' (PList [])),
             (''language'', PStr ''en''),
             (''word_segments'', PList [])]) \<and>
   fst (transcribe demo_env_align_raises demo_file True True None empty_world) =
     Inl (HTTPException 500
            (''Processing failed: 500: Diarization failed: ''
               @ exc_str (UnboundLocalError ''result_aligned'')))"
  by (simp add: eval_defs demo_defs demo_env_align_raises_def)

section \<open>The response document\<close>

lemma respond_success_diarized:
  assumes "respond env file align diarize audio result w = (Inr v, w')" and "diarize"
  shows "result_diarized_after env diarize align result audio \<noteq> None"
proof -
  let ?lang = "dict_get result ''language'' (PStr ''unknown'')"
  obtain t where ft: "full_text result = Inr t"
    using assms(1) by (cases "full_text result") (auto simp: respond_def Let_def)
  let ?rd0 = "[(''text'', t), (''segments'', dict_get result ''segments'' (PList [])),
               (''language'', ?lang)]"
  let ?w1 = "print (Detected_language ?lang) w"
  obtain rd1 ra w2 where al: "alignment env align result ?lang audio ?rd0 ?w1 = (rd1, ra, w2)"
    by (metis prod_cases3)
  have ra: "ra = result_aligned_after env align result audio"
    using alignment_result_aligned [of env align result audio ?rd0 ?w1] al by simp
  obtain rd2 w3 where "diarization env diarize align audio result ra rd1 w2 = (Inr rd2, w3)"
    using assms(1) ft al by (auto simp: respond_def Let_def split: prod.splits sum.splits)
  then show ?thesis
    using assms(2) ra
    by (auto simp: diarization_def diarize_try_def result_diarized_after_def Let_def
          split: prod.splits sum.splits)
qed

lemma demo_run:
  "fst (transcribe demo_env demo_file True True None empty_world) =
     Inr (JSONResponse
            [(''text'', PStr ''Hello world''),
             (''segments'', dict_get demo_diarized ''segments'' (PList [])),
             (''language'', PStr ''en''),
             (''word_segments'', dict_get demo_aligned ''word_segments'' (PList [])),
             (''diarization'', dict_get demo_diarized ''segments'' (PList []))])"
  by (simp add: eval_defs demo_defs)

text \<open>
  C2. In every successful response the \<open>segments\<close> entry is the most refined segment
  list: the one of the diarization result if diarization was requested (it has then
  succeeded), else the one of the alignment result if alignment was requested and
  succeeded, else the raw list of the transcription (empty when the transcription has
  none).
\<close>

theorem segments_most_refined:
  assumes "transcribe env file align diarize language w = (Inr v, w')"
  shows "\<exists>name audio result response.
           accepted env file diarize name \<and>
           transcribed env file language name audio result \<and>
           v = JSONResponse response \<and>
           (diarize \<longrightarrow> result_diarized_after env diarize align result audio \<noteq> None) \<and>
           map_of response ''segments'' =
             Some (most_refined (dict_get result ''segments'' (PList []))
                     (result_aligned_after env align result audio)
                     (result_diarized_after env diarize align result audio))"
proof -
  obtain name audio result w1 w2 where acc: "accepted env file diarize name"
    and tr: "transcribed env file language name audio result"
    and rp: "respond env file align diarize audio result w1 = (Inr v, w2)"
    using transcribe_success [OF assms] by blast
  from respond_success [OF rp] respond_success_diarized [OF rp] acc tr show ?thesis
    by blast
qed

theorem segments_most_refined_witness:
  "transcribe demo_env demo_file True True None empty_world =
     (Inr (JSONResponse
            [(''text'', PStr ''Hello world''),
             (''segments'', dict_get demo_diarized ''segments'' (PList [])),
             (''language'', PStr ''en''),
             (''word_segments'', dict_get demo_aligned ''word_segments'' (PList [])),
             (''diarization'', dict_get demo_diarized ''segments'' (PList []))]),
      snd (transcribe demo_env demo_file True True None empty_world)) \<and>
   (\<exists>name audio result response.
      accepted demo_env demo_file True name \<and>
      transcribed demo_env demo_file None name audio result \<and>
      JSONResponse
        [(''text'', PStr ''Hello world''),
         (''segments'', dict_get demo_diarized ''segments'' (PList [])),
         (''language'', PStr ''en''),
         (''word_segments'', dict_get demo_aligned ''word_segments'' (PList [])),
         (''diarization'', dict_get demo_diarized ''segments'' (PList []))]
        = JSONResponse response \<and>
      (True \<longrightarrow> result_diarized_after demo_env True True result audio \<noteq> None) \<and>
      map_of response ''segments'' =
        Some (most_refined (dict_get result ''segments'' (PList []))
                (result_aligned_after demo_env True result audio)
                (result_diarized_after demo_env True True result audio)))"
proof -
  have h: "transcribe demo_env demo_file True True None empty_world =
     (Inr (JSONResponse
            [(''text'', PStr ''Hello world''),
             (''segments'', dict_get demo_diarized ''segments'' (PList [])),
             (''language'', PStr ''en''),
             (''word_segments'', dict_get demo_aligned ''word_segments'' (PList [])),
             (''diarization'', dict_get demo_diarized ''segments'' (PList []))]),
      snd (transcribe demo_env demo_file True True None empty_world))"
    using demo_run by (metis prod.collapse)
  show ?thesis
    using h segments_most_refined [OF h] by blast
qed

section \<open>The text of the response\<close>

lemma transcribe_success_respond:
  assumes "accepted env file diarize name"
    and "transcribed env file language name audio result"
    and "transcribe env file align diarize language w = (Inr v, w')"
  shows "\<exists>w1 w2. respond env file align diarize audio result w1 = (Inr v, w2)"
proof -
  obtain w1 where tb: "try_body env file align diarize language (audio_path_of name) w
                         = respond env file align diarize audio result w1"
    using try_body_transcribed [OF assms(2)] by blast
  obtain r w2 where rp: "respond env file align diarize audio result w1 = (r, w2)"
    by (cases "respond env file align diarize audio result w1")
  have "r = Inr v"
    using assms(3) tb rp by (cases r) (simp_all add: transcribe_accepted [OF assms(1)])
  with rp show ?thesis by blast
qed

text \<open>Stripping and joining, as the handler does them, against their descriptions.\<close>

lemma str_strip_stripped: "stripped s (str_strip s)"
proof -
  let ?y = "dropWhile isspace s"
  let ?t = "rev (dropWhile isspace (rev ?y))"
  let ?a = "rev (takeWhile isspace (rev ?y))"
  have y: "?y = ?t @ ?a"
    by (metis rev_append rev_rev_ident takeWhile_dropWhile_id)
  have s: "s = takeWhile isspace s @ ?t @ ?a"
  proof -
    have "s = takeWhile isspace s @ ?y" by simp
    with y show ?thesis by simp
  qed
  have b: "list_all isspace (takeWhile isspace s)"
    by (auto simp: list_all_iff dest: set_takeWhileD)
  have a: "list_all isspace ?a"
    by (auto simp: list_all_iff dest: set_takeWhileD)
  have ends: "\<not> isspace (hd ?t) \<and> \<not> isspace (last ?t)" if t: "?t \<noteq> []"
  proof -
    have "hd ?y = hd ?t" using y t by (metis hd_append2)
    moreover have "?y \<noteq> []" using y t by (metis append_is_Nil_conv)
    ultimately have "\<not> isspace (hd ?t)" using hd_dropWhile [of isspace s] by simp
    moreover have "dropWhile isspace (rev ?y) \<noteq> []" using t by simp
    then have "\<not> isspace (hd (dropWhile isspace (rev ?y)))" by (rule hd_dropWhile)
    then have "\<not> isspace (last ?t)" using t by (simp add: last_rev)
    ultimately show ?thesis by simp
  qed
  show ?thesis
    unfolding stripped_def str_strip_def
    using s b a ends by blast
qed

lemma str_join_spaced: "str_join '' '' ts = spaced ts"
proof (induction ts rule: induct_list012)
  case 1
  then show ?case by (simp add: spaced_def)
next
  case (2 x)
  then show ?case by (simp add: spaced_def)
next
  case (3 x y zs)
  then show ?case by (simp add: spaced_def)
qed

lemma str_strip_empty: "str_strip [] = []"
  by (simp add: str_strip_def)

lemma seg_texts_carried:
  assumes "list_all2 carries_text ds texts"
  shows "seg_texts (map PDict ds) = Inr (map str_strip texts)"
  using assms
  by (induction rule: list_all2_induct)
     (auto simp: carries_text_def dict_get_def str_strip_empty)

lemma full_text_supplied:
  assumes "map_of result ''text'' = Some t" and "truthy t"
  shows "full_text result = Inr t"
  using assms by (simp add: full_text_def dict_get_def)

lemma full_text_from_segments:
  assumes "\<forall>t. map_of result ''text'' = Some t \<longrightarrow> \<not> truthy t"
    and "map_of result ''segments'' = Some (PList (map PDict ds))"
    and "list_all2 carries_text ds texts"
  shows "full_text result = Inr (PStr (spaced (map str_strip texts)))"
proof -
  have "\<not> truthy (dict_get result ''text'' (PStr []))"
    using assms(1) by (cases "map_of result ''text''") (simp_all add: dict_get_def)
  then show ?thesis
    using assms(2) seg_texts_carried [OF assms(3)]
    by (simp add: full_text_def dict_contains_def dict_getitem_def str_join_spaced)
qed

lemma full_text_nothing:
  assumes "\<forall>t. map_of result ''text'' = Some t \<longrightarrow> \<not> truthy t"
    and "map_of result ''segments'' = None"
  shows "full_text result = Inr (case map_of result ''text'' of None \<Rightarrow> PStr [] | Some t \<Rightarrow> t)"
  using assms by (simp add: full_text_def dict_contains_def dict_get_def)

lemma strip_no_break_space: "str_strip (CHR 0xA0 # ''Hello'' @ [CHR 0x85]) = ''Hello''"
  by (simp add: str_strip_def isspace_def)

text \<open>
  C8. In a successful response to a request whose transcription gave \<open>result\<close>:
  when the result supplies a combined text (a \<open>text\<close> entry that is not empty), the
  \<open>text\<close> of the response is that text. When it supplies none and its segments carry
  the texts \<open>texts\<close>, the \<open>text\<close> of the response is made of these texts, each without
  its leading and trailing whitespace, in order, with a single space between
  neighbours. When it supplies neither text nor segments, the \<open>text\<close> of the response is
  the (empty) text entry.
\<close>

theorem text_from_segments_when_missing:
  assumes "accepted env file diarize name"
    and "transcribed env file language name audio result"
    and "transcribe env file align diarize language w = (Inr (JSONResponse response), w')"
  shows "(\<forall>t. map_of result ''text'' = Some t \<longrightarrow> truthy t \<longrightarrow>
              map_of response ''text'' = Some t) \<and>
         (\<forall>ds texts.
              (\<forall>t. map_of result ''text'' = Some t \<longrightarrow> \<not> truthy t) \<longrightarrow>
              map_of result ''segments'' = Some (PList (map PDict ds)) \<longrightarrow>
              list_all2 carries_text ds texts \<longrightarrow>
              (\<exists>ts. list_all2 stripped texts ts \<and>
                    map_of response ''text'' = Some (PStr (spaced ts)))) \<and>
         ((\<forall>t. map_of result ''text'' = Some t \<longrightarrow> \<not> truthy t) \<longrightarrow>
          map_of result ''segments'' = None \<longrightarrow>
          map_of response ''text'' =
            Some (case map_of result ''text'' of None \<Rightarrow> PStr [] | Some t \<Rightarrow> t))"
proof -
  obtain w1 w2 where
    rp: "respond env file align diarize audio result w1 = (Inr (JSONResponse response), w2)"
    using transcribe_success_respond [OF assms] by blast
  obtain t0 where ft: "full_text result = Inr t0" and tx: "map_of response ''text'' = Some t0"
    using respond_success [OF rp] by auto
  show ?thesis
  proof (intro conjI allI impI)
    fix t
    assume "map_of result ''text'' = Some t" and "truthy t"
    from full_text_supplied [OF this] ft tx
    show "map_of response ''text'' = Some t" by simp
  next
    fix ds texts
    assume none: "\<forall>t. map_of result ''text'' = Some t \<longrightarrow> \<not> truthy t"
      and segs: "map_of result ''segments'' = Some (PList (map PDict ds))"
      and carried: "list_all2 carries_text ds texts"
    have "list_all2 stripped texts (map str_strip texts)"
      by (simp add: list_all2_map2 list_all2_same str_strip_stripped)
    moreover have "map_of response ''text'' = Some (PStr (spaced (map str_strip texts)))"
      using full_text_from_segments [OF none segs carried] ft tx by simp
    ultimately show "\<exists>ts. list_all2 stripped texts ts \<and>
                          map_of response ''text'' = Some (PStr (spaced ts))"
      by blast
  next
    assume "\<forall>t. map_of result ''text'' = Some t \<longrightarrow> \<not> truthy t"
      and "map_of result ''segments'' = None"
    from full_text_nothing [OF this] ft tx
    show "map_of response ''text'' =
            Some (case map_of result ''text'' of None \<Rightarrow> PStr [] | Some t \<Rightarrow> t)"
      by simp
  qed
qed

theorem text_from_segments_when_missing_witness:
  "(accepted demo_env demo_file False ''a.wav'' \<and>
    transcribed demo_env demo_file None ''a.wav'' (PStr ''RIFF'') demo_result \<and>
    transcribe demo_env demo_file False False None empty_world =
      (Inr (JSONResponse
             [(''text'', PStr ''Hello world''),
              (''segments'', dict_get demo_result ''segments'' (PList [])),
              (''language'', PStr ''en'')]),
       snd (transcribe demo_env demo_file False False None empty_world)) \<and>
    map_of demo_result ''text'' = None \<and>
    map_of demo_result ''segments'' =
      Some (PList (map PDict
        [[(''start'', PFloat 0), (''end'', PFloat 2), (''text'', PStr '' Hello'')],
         [(''start'', PFloat 2), (''end'', PFloat 3), (''text'', PStr '' world '')]])) \<and>
    list_all2 carries_text
      [[(''start'', PFloat 0), (''end'', PFloat 2), (''text'', PStr '' Hello'')],
       [(''start'', PFloat 2), (''end'', PFloat 3), (''text'', PStr '' world '')]]
      ['' Hello'', '' world ''] \<and>
    (\<exists>ts. list_all2 stripped ['' Hello'', '' world ''] ts \<and>
          map_of [(''text'', PStr ''Hello world''),
                  (''segments'', dict_get demo_result ''segments'' (PList [])),
                  (''language'', PStr ''en'')] ''text'' = Some (PStr (spaced ts))) \<and>
    spaced [''Hello'', ''world''] = ''Hello world'') \<and>
   (accepted demo_env_with_text demo_file False ''a.wav'' \<and>
    transcribed demo_env_with_text demo_file None ''a.wav'' (PStr ''RIFF'')
      ((''text'', PStr ''Hello, world.'') # demo_result) \<and>
    transcribe demo_env_with_text demo_file False False None empty_world =
      (Inr (JSONResponse
             [(''text'', PStr ''Hello, world.''),
              (''segments'', dict_get demo_result ''segments'' (PList [])),
              (''language'', PStr ''en'')]),
       snd (transcribe demo_env_with_text demo_file False False None empty_world)) \<and>
    map_of ((''text'', PStr ''Hello, world.'') # demo_result) ''text''
      = Some (PStr ''Hello, world.'') \<and>
    truthy (PStr ''Hello, world.'') \<and>
    map_of [(''text'', PStr ''Hello, world.''),
            (''segments'', dict_get demo_result ''segments'' (PList [])),
            (''language'', PStr ''en'')] ''text'' = Some (PStr ''Hello, world.'')) \<and>
   (accepted demo_env_silence demo_file False ''a.wav'' \<and>
    transcribed demo_env_silence demo_file None ''a.wav'' (PStr ''RIFF'')
      [(''language'', PStr ''en'')] \<and>
    transcribe demo_env_silence demo_file False False None empty_world =
      (Inr (JSONResponse
             [(''text'', PStr []), (''segments'', PList []), (''language'', PStr ''en'')]),
       snd (transcribe demo_env_silence demo_file False False None empty_world)) \<and>
    map_of [(''language'', PStr ''en'')] ''text'' = None \<and>
    map_of [(''language'', PStr ''en'')] ''segments'' = None \<and>
    map_of [(''text'', PStr []), (''segments'', PList []), (''language'', PStr ''en'')] ''text''
      = Some (case map_of [(''language'', PStr ''en'')] ''text'' of
                None \<Rightarrow> PStr [] | Some t \<Rightarrow> t))"
proof -
  let ?d1 = "[(''start'', PFloat 0), (''end'', PFloat 2), (''text'', PStr '' Hello'')]"
  let ?d2 = "[(''start'', PFloat 2), (''end'', PFloat 3), (''text'', PStr '' world '')]"
  let ?r1 = "[(''text'', PStr ''Hello world''),
              (''segments'', dict_get demo_result ''segments'' (PList [])),
              (''language'', PStr ''en'')]"
  let ?r2 = "[(''text'', PStr ''Hello, world.''),
              (''segments'', dict_get demo_result ''segments'' (PList [])),
              (''language'', PStr ''en'')]"
  let ?r3 = "[(''text'', PStr []), (''segments'', PList []), (''language'', PStr ''en'')]"
  have a1: "accepted demo_env demo_file False ''a.wav''"
    by (simp add: accepted_def demo_file_def)
  have b1: "transcribed demo_env demo_file None ''a.wav'' (PStr ''RIFF'') demo_result"
    by (simp add: transcribed_def demo_env_def demo_file_def)
  have "fst (transcribe demo_env demo_file False False None empty_world) = Inr (JSONResponse ?r1)"
    by (simp add: eval_defs demo_defs)
  then have c1: "transcribe demo_env demo_file False False None empty_world =
      (Inr (JSONResponse ?r1), snd (transcribe demo_env demo_file False False None empty_world))"
    by (metis prod.collapse)
  have d1: "map_of demo_result ''text'' = None"
    by (simp add: demo_result_def)
  have e1: "map_of demo_result ''segments'' = Some (PList (map PDict [?d1, ?d2]))"
    by (simp add: demo_result_def)
  have f1: "list_all2 carries_text [?d1, ?d2] ['' Hello'', '' world '']"
    by (simp add: carries_text_def)
  have g1: "spaced [''Hello'', ''world''] = ''Hello world''"
    by (simp add: spaced_def)
  note t1 = text_from_segments_when_missing [OF a1 b1 c1]
  have h1: "\<exists>ts. list_all2 stripped ['' Hello'', '' world ''] ts \<and>
                 map_of ?r1 ''text'' = Some (PStr (spaced ts))"
  proof -
    have "\<forall>t. map_of demo_result ''text'' = Some t \<longrightarrow> \<not> truthy t"
      using d1 by simp
    with t1 e1 f1 show ?thesis by blast
  qed
  have a2: "accepted demo_env_with_text demo_file False ''a.wav''"
    by (simp add: accepted_def demo_file_def)
  have b2: "transcribed demo_env_with_text demo_file None ''a.wav'' (PStr ''RIFF'')
              ((''text'', PStr ''Hello, world.'') # demo_result)"
    by (simp add: transcribed_def demo_env_with_text_def demo_env_def demo_file_def)
  have "fst (transcribe demo_env_with_text demo_file False False None empty_world) =
          Inr (JSONResponse ?r2)"
    by (simp add: eval_defs demo_defs demo_env_with_text_def)
  then have c2: "transcribe demo_env_with_text demo_file False False None empty_world =
      (Inr (JSONResponse ?r2),
       snd (transcribe demo_env_with_text demo_file False False None empty_world))"
    by (metis prod.collapse)
  have d2: "map_of ((''text'', PStr ''Hello, world.'') # demo_result) ''text''
              = Some (PStr ''Hello, world.'')"
    by simp
  have e2: "truthy (PStr ''Hello, world.'')"
    by simp
  note t2 = text_from_segments_when_missing [OF a2 b2 c2]
  have h2: "map_of ?r2 ''text'' = Some (PStr ''Hello, world.'')"
    using t2 d2 e2 by blast
  have a3: "accepted demo_env_silence demo_file False ''a.wav''"
    by (simp add: accepted_def demo_file_def)
  have b3: "transcribed demo_env_silence demo_file None ''a.wav'' (PStr ''RIFF'')
              [(''language'', PStr ''en'')]"
    by (simp add: transcribed_def demo_env_silence_def demo_env_def demo_file_def)
  have "fst (transcribe demo_env_silence demo_file False False None empty_world) =
          Inr (JSONResponse ?r3)"
    by (simp add: eval_defs demo_defs demo_env_silence_def)
  then have c3: "transcribe demo_env_silence demo_file False False None empty_world =
      (Inr (JSONResponse ?r3),
       snd (transcribe demo_env_silence demo_file False False None empty_world))"
    by (metis prod.collapse)
  have d3: "map_of [(''language'', PStr ''en'')] ''text'' = None"
    by simp
  have e3: "map_of [(''language'', PStr ''en'')] ''segments'' = None"
    by simp
  note t3 = text_from_segments_when_missing [OF a3 b3 c3]
  have h3: "map_of ?r3 ''text'' =
              Some (case map_of [(''language'', PStr ''en'')] ''text'' of
                      None \<Rightarrow> PStr [] | Some t \<Rightarrow> t)"
  proof -
    have "\<forall>t. map_of [(''language'', PStr ''en'')] ''text'' = Some t \<longrightarrow> \<not> truthy t"
      by simp
    with t3 e3 show ?thesis by blast
  qed
  show ?thesis
    by (intro conjI a1 b1 c1 d1 e1 f1 g1 h1 a2 b2 c2 d2 e2 h2 a3 b3 c3 d3 e3 h3)
qed

section \<open>Files and calls\<close>

text \<open>Only saving the upload and the cleanup touch the files.\<close>

lemma run_transcription_fs:
  "fs (snd (run_transcription env audio_path language w)) = fs w"
  by (simp add: run_transcription_def Let_def called_def print_def split: sum.splits)

lemma alignment_fs:
  "fs (snd (snd (alignment env align result lang audio rd w))) = fs w"
  by (simp add: alignment_def align_try_def Let_def print_def
        split: prod.splits sum.splits option.splits)

lemma diarization_fs:
  "fs (snd (diarization env diarize align audio result ra rd w)) = fs w"
  by (simp add: diarization_def diarize_try_def Let_def print_def
        split: prod.splits sum.splits option.splits)

lemma respond_fs:
  "fs (snd (respond env file align diarize audio result w)) = fs w"
proof (cases "full_text result")
  case (Inl e)
  then show ?thesis by (simp add: respond_def Let_def print_def)
next
  case (Inr t)
  let ?lang = "dict_get result ''language'' (PStr ''unknown'')"
  let ?rd0 = "[(''text'', t), (''segments'', dict_get result ''segments'' (PList [])),
               (''language'', ?lang)]"
  let ?w1 = "print (Detected_language ?lang) w"
  obtain rd1 ra w2 where al: "alignment env align result ?lang audio ?rd0 ?w1 = (rd1, ra, w2)"
    by (metis prod_cases3)
  have w2: "fs w2 = fs w"
    using alignment_fs [of env align result ?lang audio ?rd0 ?w1] al by (simp add: print_def)
  obtain r w3 where di: "diarization env diarize align audio result ra rd1 w2 = (r, w3)"
    by (cases "diarization env diarize align audio result ra rd1 w2")
  have "fs w3 = fs w"
    using diarization_fs [of env diarize align audio result ra rd1 w2] di w2 by simp
  then show ?thesis
    using Inr al di by (simp add: respond_def Let_def print_def split: sum.splits)
qed

lemma save_upload_fs:
  assumes "open_wb env audio_path = None"
  shows "fs (snd (save_upload env file audio_path w)) (resolve audio_path) \<noteq> None"
  using assms
  by (simp add: save_upload_def Let_def called_def write_file_def split: sum.splits)

lemma save_upload_written:
  assumes "open_wb env audio_path = None" and "contents file = Inr data"
  shows "save_upload env file audio_path w =
           (Inr (), write_file audio_path data
                      (write_file audio_path [] (called (Open_wb audio_path) w)))"
  using assms by (simp add: save_upload_def Let_def)

lemma try_body_fs:
  assumes "open_wb env audio_path = None"
  shows "fs (snd (try_body env file align diarize language audio_path w)) (resolve audio_path)
           \<noteq> None"
proof -
  obtain r w1 where su: "save_upload env file audio_path w = (r, w1)"
    by (cases "save_upload env file audio_path w")
  have w1: "fs w1 (resolve audio_path) \<noteq> None"
    using save_upload_fs [OF assms, of "file" w] su by simp
  show ?thesis
  proof (cases r)
    case (Inl e)
    then show ?thesis using su w1 by (simp add: try_body_def)
  next
    case (Inr u)
    let ?w1 = "print (Processing_file (filename file)) w1"
    obtain r2 w2 where rt: "run_transcription env audio_path language ?w1 = (r2, w2)"
      by (cases "run_transcription env audio_path language ?w1")
    have w2: "fs w2 = fs w1"
      using run_transcription_fs [of env audio_path language ?w1] rt by (simp add: print_def)
    show ?thesis
    proof (cases r2)
      case (Inl e)
      then show ?thesis using su Inr rt w1 w2 by (simp add: try_body_def)
    next
      case (Inr ar)
      obtain audio result where ar: "ar = (audio, result)" by (cases ar)
      have "fs (snd (respond env file align diarize audio result w2)) = fs w2"
        by (rule respond_fs)
      then show ?thesis
        using su \<open>r = Inr u\<close> rt Inr ar w1 w2 by (simp add: try_body_def)
    qed
  qed
qed

text \<open>The \<^verbatim>\<open>finally\<close> clause.\<close>

lemma cleanup_removed:
  assumes "os_remove env audio_path = None" and "audio_path \<noteq> []"
  shows "fs (cleanup env audio_path w) (resolve audio_path) = None"
  using assms by (simp add: cleanup_def Let_def called_def print_def path_exists_def)

lemma cleanup_warning:
  assumes "os_remove env audio_path = Some e" and "audio_path \<noteq> []"
    and "fs w (resolve audio_path) \<noteq> None"
  shows "last (stdout (cleanup env audio_path w)) = Cleanup_warning (exc_str e) \<and>
         fs (cleanup env audio_path w) = fs w"
  using assms by (simp add: cleanup_def Let_def called_def print_def path_exists_def)

lemma try_body_os_remove:
  "try_body (env\<lparr>os_remove := rm\<rparr>) file align diarize language audio_path w =
     try_body env file align diarize language audio_path w"
  by (simp add: stage_defs
        cong: sum.case_cong prod.case_cong option.case_cong if_cong)

lemma transcribe_os_remove:
  "fst (transcribe (env\<lparr>os_remove := rm\<rparr>) file align diarize language w) =
     fst (transcribe env file align diarize language w)"
  by (simp add: transcribe_def Let_def try_body_os_remove split: prod.splits sum.splits)

text \<open>
  C3. For a request that has passed both checks: when the removal does not raise, the
  location of the temporary file holds no file after the request, whatever the outcome
  of the request was; the response does not depend on what the removal does; and when
  the removal of the file created for the upload raises, the last line printed is the
  warning with the message of that exception.
\<close>

theorem temporary_file_removed:
  assumes "accepted env file diarize name"
  shows "(os_remove env (audio_path_of name) = None \<longrightarrow>
            fs (snd (transcribe env file align diarize language w))
               (resolve (audio_path_of name)) = None) \<and>
         fst (transcribe (env\<lparr>os_remove := rm\<rparr>) file align diarize language w) =
           fst (transcribe env file align diarize language w) \<and>
         (\<forall>e. os_remove env (audio_path_of name) = Some e \<longrightarrow>
              open_wb env (audio_path_of name) = None \<longrightarrow>
              last (stdout (snd (transcribe env file align diarize language w))) =
                Cleanup_warning (exc_str e))"
proof (intro conjI allI impI)
  let ?p = "audio_path_of name"
  obtain r w1 where tb: "try_body env file align diarize language ?p w = (r, w1)"
    by (cases "try_body env file align diarize language ?p w")
  have p: "?p \<noteq> []" by (simp add: audio_path_of_def)
  show "fst (transcribe (env\<lparr>os_remove := rm\<rparr>) file align diarize language w) =
          fst (transcribe env file align diarize language w)"
    by (rule transcribe_os_remove)
  show "fs (snd (transcribe env file align diarize language w)) (resolve ?p) = None"
    if "os_remove env ?p = None"
    using cleanup_removed [OF that p] tb
    by (cases r) (simp_all add: transcribe_accepted [OF assms])
  show "last (stdout (snd (transcribe env file align diarize language w))) =
          Cleanup_warning (exc_str e)"
    if rm: "os_remove env ?p = Some e" and op: "open_wb env ?p = None" for e
  proof -
    have ex: "fs w1 (resolve ?p) \<noteq> None"
      using try_body_fs [OF op, of "file" align diarize language w] tb by simp
    show ?thesis
    proof (cases r)
      case (Inl x)
      have "fs (print (Error_processing (exc_str x)) w1) (resolve ?p) \<noteq> None"
        using ex by (simp add: print_def)
      from cleanup_warning [OF rm p this] show ?thesis
        using tb Inl by (simp add: transcribe_accepted [OF assms])
    next
      case (Inr x)
      from cleanup_warning [OF rm p ex] show ?thesis
        using tb Inr by (simp add: transcribe_accepted [OF assms])
    qed
  qed
qed

theorem temporary_file_removed_witness:
  "accepted demo_env_remove_raises demo_file False ''a.wav'' \<and>
   os_remove demo_env ''/tmp/a.wav'' = None \<and>
   fs (snd (transcribe demo_env demo_file True False None empty_world))
      (resolve ''/tmp/a.wav'') = None \<and>
   fst (transcribe demo_env_remove_raises demo_file True False None empty_world) =
     fst (transcribe demo_env demo_file True False None empty_world) \<and>
   os_remove demo_env_remove_raises ''/tmp/a.wav'' = Some (Error ''Permission denied'') \<and>
   open_wb demo_env_remove_raises ''/tmp/a.wav'' = None \<and>
   last (stdout (snd (transcribe demo_env_remove_raises demo_file True False None empty_world)))
     = Cleanup_warning ''Permission denied''"
proof -
  have a: "accepted demo_env_remove_raises demo_file False ''a.wav''"
    by (simp add: accepted_def demo_env_remove_raises_def demo_defs)
  have a': "accepted demo_env demo_file False ''a.wav''"
    by (simp add: accepted_def demo_defs)
  have e: "demo_env_remove_raises =
             demo_env\<lparr>os_remove := (\<lambda>path. Some (Error ''Permission denied''))\<rparr>"
    by (simp add: demo_env_remove_raises_def)
  have b: "os_remove demo_env ''/tmp/a.wav'' = None"
    by (simp add: demo_env_def)
  have c: "os_remove demo_env_remove_raises ''/tmp/a.wav'' = Some (Error ''Permission denied'')"
    by (simp add: demo_env_remove_raises_def)
  have d: "open_wb demo_env_remove_raises ''/tmp/a.wav'' = None"
    by (simp add: demo_env_remove_raises_def demo_env_def)
  show ?thesis
    using a b c d
      temporary_file_removed [OF a', of True None empty_world
        "\<lambda>path. Some (Error ''Permission denied'')"]
      temporary_file_removed [OF a, of True None empty_world "os_remove demo_env_remove_raises"]
    by (simp add: audio_path_of_def e [symmetric])
qed

section \<open>The batch\<close>

text \<open>The outcome of a request does not depend on the world it starts in.\<close>

lemma alignment_outcome:
  "fst (alignment env align result lang audio rd w) =
     fst (alignment env align result lang audio rd w') \<and>
   fst (snd (alignment env align result lang audio rd w)) =
     fst (snd (alignment env align result lang audio rd w'))"
proof -
  obtain r cs where ac: "align_calls env result lang audio = (r, cs)"
    by (cases "align_calls env result lang audio")
  show ?thesis
  proof (cases r)
    case (Inl e)
    then show ?thesis using ac by (simp add: alignment_def align_try_def)
  next
    case (Inr ra)
    then show ?thesis
      using ac
      by (cases "dict_getitem result ''segments''")
         (simp_all add: alignment_def align_try_def Let_def)
  qed
qed

lemma diarization_outcome:
  "fst (diarization env diarize align audio result ra rd w) =
     fst (diarization env diarize align audio result ra rd w')"
proof -
  obtain r cs where dc: "diarize_calls env align audio result ra = (r, cs)"
    by (cases "diarize_calls env align audio result ra")
  show ?thesis
  proof (cases r)
    case (Inl e)
    then show ?thesis using dc by (simp add: diarization_def diarize_try_def)
  next
    case (Inr rdz)
    let ?rd1 = "dict_setitem rd ''diarization'' (dict_get rdz ''segments'' (PList []))"
    show ?thesis
      using dc Inr
      by (cases "dict_getitem ?rd1 ''segments''")
         (simp_all add: diarization_def diarize_try_def Let_def)
  qed
qed

lemma respond_outcome:
  "fst (respond env file align diarize audio result w) =
     fst (respond env file align diarize audio result w')"
proof (cases "full_text result")
  case (Inl e)
  then show ?thesis by (simp add: respond_def Let_def)
next
  case (Inr t)
  let ?lang = "dict_get result ''language'' (PStr ''unknown'')"
  let ?rd0 = "[(''text'', t), (''segments'', dict_get result ''segments'' (PList [])),
               (''language'', ?lang)]"
  obtain rd1 ra w2 where a: "alignment env align result ?lang audio ?rd0
                               (print (Detected_language ?lang) w) = (rd1, ra, w2)"
    by (metis prod_cases3)
  obtain rd1' ra' w2' where b: "alignment env align result ?lang audio ?rd0
                                  (print (Detected_language ?lang) w') = (rd1', ra', w2')"
    by (metis prod_cases3)
  have same: "rd1' = rd1" "ra' = ra"
    using alignment_outcome [of env align result ?lang audio ?rd0
            "print (Detected_language ?lang) w" "print (Detected_language ?lang) w'"] a b
    by simp_all
  obtain r w3 where c: "diarization env diarize align audio result ra rd1 w2 = (r, w3)"
    by (cases "diarization env diarize align audio result ra rd1 w2")
  obtain r' w3' where d: "diarization env diarize align audio result ra rd1 w2' = (r', w3')"
    by (cases "diarization env diarize align audio result ra rd1 w2'")
  have "r' = r"
    using diarization_outcome [of env diarize align audio result ra rd1 w2 w2'] c d by simp
  then show ?thesis
    using Inr a b same c d by (cases r) (simp_all add: respond_def Let_def)
qed

lemma try_body_outcome:
  "fst (try_body env file align diarize language audio_path w) =
     fst (try_body env file align diarize language audio_path w')"
proof (cases "open_wb env audio_path")
  case (Some e)
  then show ?thesis by (simp add: try_body_def save_upload_def Let_def)
next
  case None
  show ?thesis
  proof (cases "contents file")
    case (Inl e)
    then show ?thesis using None by (simp add: try_body_def save_upload_def Let_def)
  next
    case (Inr data)
    show ?thesis
    proof (cases "whisperx_load_audio env audio_path (Some data)")
      case (Inl e)
      then show ?thesis
        using None Inr
        by (simp add: try_body_def save_upload_def run_transcription_def Let_def
              called_def print_def write_file_def)
    next
      case audio: (Inr audio)
      show ?thesis
      proof (cases "model_transcribe env audio language")
        case (Inl e)
        then show ?thesis
          using None Inr audio
          by (simp add: try_body_def save_upload_def run_transcription_def Let_def
                called_def print_def write_file_def)
      next
        case result: (Inr result)
        show ?thesis
          using None Inr audio result
            respond_outcome [of env "file" align diarize audio result]
          by (simp add: try_body_def save_upload_def run_transcription_def Let_def
                called_def print_def write_file_def)
      qed
    qed
  qed
qed

lemma transcribe_outcome:
  "fst (transcribe env file align diarize language w) =
     fst (transcribe env file align diarize language w')"
proof -
  let ?p = "audio_path_of (case filename file of Some name \<Rightarrow> name | None \<Rightarrow> [])"
  obtain r w1 where a: "try_body env file align diarize language ?p w = (r, w1)"
    by (cases "try_body env file align diarize language ?p w")
  obtain r' w1' where b: "try_body env file align diarize language ?p w' = (r', w1')"
    by (cases "try_body env file align diarize language ?p w'")
  have "r = r'"
    using try_body_outcome [of env "file" align diarize language ?p w w'] a b by simp
  then show ?thesis
    using a b by (cases r') (simp_all add: transcribe_def Let_def)
qed

lemma batch_loop_entries:
  "fst (batch_loop env files align diarize language results w) =
     results @ map (\<lambda>file. batch_entry file (fst (transcribe env file align diarize language w0)))
                 files"
proof (induction files arbitrary: results w)
  case Nil
  then show ?case by simp
next
  case (Cons f files)
  obtain r w1 where t: "transcribe env f align diarize language w = (r, w1)"
    by (cases "transcribe env f align diarize language w")
  have "r = fst (transcribe env f align diarize language w0)"
    using transcribe_outcome [of env f align diarize language w w0] t by simp
  then show ?case using t Cons.IH by simp
qed

lemma batch_entry_cases:
  "batch_entry file r =
     (case r of
        Inr result \<Rightarrow>
          PDict [(''filename'', (case filename file of None \<Rightarrow> PNone | Some s \<Rightarrow> PStr s)),
                 (''status'', PStr ''success''),
                 (''result'', result)]
      | Inl e \<Rightarrow>
          PDict [(''filename'', (case filename file of None \<Rightarrow> PNone | Some s \<Rightarrow> PStr s)),
                 (''status'', PStr ''error''),
                 (''error'', PStr (exc_str e))])"
  by (cases r; cases "filename file") (simp_all add: batch_entry_def)

text \<open>
  C7. The batch handler returns normally, with one entry for each uploaded file, in
  upload order. The entry of a file carries its filename and is made from the outcome of
  the single-file handler on that file alone: status \<open>success\<close> with its response under
  \<open>result\<close>, or status \<open>error\<close> with the message of its exception under \<open>error\<close>. That
  outcome is the same from whatever world \<open>w0\<close> the file is processed in, so it does not
  depend on the files before it or on their failures.
\<close>

theorem batch_entries_per_file:
  "fst (transcribe_batch env files align diarize language w) =
     Inr (PDict
       [(''results'',
         PList (map (\<lambda>file.
                  case fst (transcribe env file align diarize language w0) of
                    Inr result \<Rightarrow>
                      PDict [(''filename'',
                              (case filename file of None \<Rightarrow> PNone | Some s \<Rightarrow> PStr s)),
                             (''status'', PStr ''success''),
                             (''result'', result)]
                  | Inl e \<Rightarrow>
                      PDict [(''filename'',
                              (case filename file of None \<Rightarrow> PNone | Some s \<Rightarrow> PStr s)),
                             (''status'', PStr ''error''),
                             (''error'', PStr (exc_str e))])
                files))])"
proof -
  obtain results w1 where b: "batch_loop env files align diarize language [] w = (results, w1)"
    by (cases "batch_loop env files align diarize language [] w")
  then show ?thesis
    using batch_loop_entries [of env files align diarize language "[]" w w0]
    by (simp add: transcribe_batch_def batch_entry_cases)
qed

theorem batch_entries_per_file_witness:
  "fst (transcribe_batch demo_env [demo_file\<lparr>filename := None\<rparr>, demo_file] False False None
          empty_world) =
     Inr (PDict [(''results'',
                  PList [PDict [(''filename'', PNone),
                                (''status'', PStr ''error''),
                                (''error'', PStr ''400: No file provided'')],
                         PDict [(''filename'', PStr ''a.wav''),
                                (''status'', PStr ''success''),
                                (''result'',
                                 JSONResponse
                                   [(''text'', PStr ''Hello world''),
                                    (''segments'', dict_get demo_result ''segments'' (PList [])),
                                    (''language'', PStr ''en'')])]])])"
proof -
  have a: "fst (transcribe demo_env (demo_file\<lparr>filename := None\<rparr>) False False None
                  empty_world) = Inl (HTTPException 400 ''No file provided'')"
    by (simp add: transcribe_def)
  have b: "fst (transcribe demo_env demo_file False False None empty_world) =
             Inr (JSONResponse
                    [(''text'', PStr ''Hello world''),
                     (''segments'', dict_get demo_result ''segments'' (PList [])),
                     (''language'', PStr ''en'')])"
    by (simp add: eval_defs demo_defs)
  have c: "show_nat 400 = ''400''"
    by (simp add: show_nat.simps digit_char_def)
  have d: "filename demo_file = Some ''a.wav''"
    by (simp add: demo_file_def)
  show ?thesis
    using batch_entries_per_file
            [of demo_env "[demo_file\<lparr>filename := None\<rparr>, demo_file]" False False None
               empty_world empty_world]
    by (simp add: a b c d)
qed

section \<open>The temporary path\<close>

text \<open>The calls of a request are appended to the calls made before it.\<close>

lemma run_transcription_calls:
  "prefix (calls w) (calls (snd (run_transcription env audio_path language w)))"
  by (simp add: run_transcription_def Let_def called_def print_def split: sum.splits)

lemma alignment_calls:
  "prefix (calls w) (calls (snd (snd (alignment env align result lang audio rd w))))"
proof -
  obtain r cs where ac: "align_calls env result lang audio = (r, cs)"
    by (cases "align_calls env result lang audio")
  show ?thesis
  proof (cases r)
    case (Inl e)
    then show ?thesis using ac by (simp add: alignment_def align_try_def print_def)
  next
    case (Inr ra)
    then show ?thesis
      using ac
      by (cases "dict_getitem result ''segments''")
         (simp_all add: alignment_def align_try_def Let_def print_def)
  qed
qed

lemma diarization_calls:
  "prefix (calls w) (calls (snd (diarization env diarize align audio result ra rd w)))"
proof -
  obtain r cs where dc: "diarize_calls env align audio result ra = (r, cs)"
    by (cases "diarize_calls env align audio result ra")
  show ?thesis
  proof (cases r)
    case (Inl e)
    then show ?thesis using dc by (simp add: diarization_def diarize_try_def print_def)
  next
    case (Inr rdz)
    let ?rd1 = "dict_setitem rd ''diarization'' (dict_get rdz ''segments'' (PList []))"
    show ?thesis
      using dc Inr
      by (cases "dict_getitem ?rd1 ''segments''")
         (simp_all add: diarization_def diarize_try_def Let_def print_def)
  qed
qed

lemma respond_calls:
  "prefix (calls w) (calls (snd (respond env file align diarize audio result w)))"
proof (cases "full_text result")
  case (Inl e)
  then show ?thesis by (simp add: respond_def Let_def print_def)
next
  case (Inr t)
  let ?lang = "dict_get result ''language'' (PStr ''unknown'')"
  let ?rd0 = "[(''text'', t), (''segments'', dict_get result ''segments'' (PList [])),
               (''language'', ?lang)]"
  let ?w1 = "print (Detected_language ?lang) w"
  obtain rd1 ra w2 where al: "alignment env align result ?lang audio ?rd0 ?w1 = (rd1, ra, w2)"
    by (metis prod_cases3)
  have w2: "prefix (calls w) (calls w2)"
    using alignment_calls [of ?w1 env align result ?lang audio ?rd0] al by (simp add: print_def)
  obtain r w3 where di: "diarization env diarize align audio result ra rd1 w2 = (r, w3)"
    by (cases "diarization env diarize align audio result ra rd1 w2")
  have "prefix (calls w2) (calls w3)"
    using diarization_calls [of w2 env diarize align audio result ra rd1] di by simp
  with w2 have "prefix (calls w) (calls w3)" by (rule prefix_order.trans)
  then show ?thesis
    using Inr al di by (cases r) (simp_all add: respond_def Let_def print_def)
qed

lemma save_upload_calls:
  "calls (snd (save_upload env file audio_path w)) = calls w @ [Open_wb audio_path]"
  by (simp add: save_upload_def Let_def called_def write_file_def
        split: option.splits sum.splits)

lemma try_body_calls:
  "prefix (calls w @ [Open_wb audio_path])
     (calls (snd (try_body env file align diarize language audio_path w)))"
proof -
  obtain r w1 where su: "save_upload env file audio_path w = (r, w1)"
    by (cases "save_upload env file audio_path w")
  have w1: "calls w1 = calls w @ [Open_wb audio_path]"
    using save_upload_calls [of env "file" audio_path w] su by simp
  show ?thesis
  proof (cases r)
    case (Inl e)
    then show ?thesis using su w1 by (simp add: try_body_def)
  next
    case (Inr u)
    let ?w1 = "print (Processing_file (filename file)) w1"
    obtain r2 w2 where rt: "run_transcription env audio_path language ?w1 = (r2, w2)"
      by (cases "run_transcription env audio_path language ?w1")
    have w2: "prefix (calls w1) (calls w2)"
      using run_transcription_calls [of ?w1 env audio_path language] rt by (simp add: print_def)
    show ?thesis
    proof (cases r2)
      case (Inl e)
      then show ?thesis using su Inr rt w1 w2 by (simp add: try_body_def)
    next
      case (Inr ar)
      obtain audio result where ar: "ar = (audio, result)" by (cases ar)
      have "prefix (calls w2) (calls (snd (respond env file align diarize audio result w2)))"
        by (rule respond_calls)
      with w2 have "prefix (calls w1)
                      (calls (snd (respond env file align diarize audio result w2)))"
        by (rule prefix_order.trans)
      then show ?thesis
        using su \<open>r = Inr u\<close> rt Inr ar w1 by (simp add: try_body_def)
    qed
  qed
qed

lemma cleanup_calls: "prefix (calls w) (calls (cleanup env audio_path w))"
  by (simp add: cleanup_def Let_def called_def print_def split: option.splits)

lemma transcribe_calls:
  assumes "accepted env file diarize name"
  shows "prefix (calls w @ [Open_wb (''/tmp/'' @ name)])
           (calls (snd (transcribe env file align diarize language w)))"
proof -
  let ?p = "audio_path_of name"
  obtain r w1 where tb: "try_body env file align diarize language ?p w = (r, w1)"
    by (cases "try_body env file align diarize language ?p w")
  have w1: "prefix (calls w @ [Open_wb ?p]) (calls w1)"
    using try_body_calls [of w ?p env "file" align diarize language] tb by simp
  show ?thesis
  proof (cases r)
    case (Inl e)
    have "prefix (calls w1) (calls (cleanup env ?p (print (Error_processing (exc_str e)) w1)))"
      using cleanup_calls [of "print (Error_processing (exc_str e)) w1" env ?p]
      by (simp add: print_def)
    with w1 have "prefix (calls w @ [Open_wb ?p])
                    (calls (cleanup env ?p (print (Error_processing (exc_str e)) w1)))"
      by (rule prefix_order.trans)
    then show ?thesis
      using tb Inl by (simp add: transcribe_accepted [OF assms] audio_path_of_def)
  next
    case (Inr v)
    have "prefix (calls w1) (calls (cleanup env ?p w1))"
      by (rule cleanup_calls)
    with w1 have "prefix (calls w @ [Open_wb ?p]) (calls (cleanup env ?p w1))"
      by (rule prefix_order.trans)
    then show ?thesis
      using tb Inr by (simp add: transcribe_accepted [OF assms] audio_path_of_def)
  qed
qed

text \<open>The upload stays where it was written until the \<^verbatim>\<open>finally\<close> clause.\<close>

lemma try_body_written:
  assumes "open_wb env audio_path = None" and "contents file = Inr data"
  shows "fs (snd (try_body env file align diarize language audio_path w)) (resolve audio_path)
           = Some data"
proof -
  let ?w1 = "write_file audio_path data
               (write_file audio_path [] (called (Open_wb audio_path) w))"
  have su: "save_upload env file audio_path w = (Inr (), ?w1)"
    using assms by (rule save_upload_written)
  have w1: "fs ?w1 (resolve audio_path) = Some data"
    by (simp add: write_file_def)
  let ?w1' = "print (Processing_file (filename file)) ?w1"
  obtain r2 w2 where rt: "run_transcription env audio_path language ?w1' = (r2, w2)"
    by (cases "run_transcription env audio_path language ?w1'")
  have w2: "fs w2 = fs ?w1"
    using run_transcription_fs [of env audio_path language ?w1'] rt by (simp add: print_def)
  show ?thesis
  proof (cases r2)
    case (Inl e)
    then show ?thesis using su rt w1 w2 by (simp add: try_body_def)
  next
    case (Inr ar)
    obtain audio result where ar: "ar = (audio, result)" by (cases ar)
    have "fs (snd (respond env file align diarize audio result w2)) = fs w2"
      by (rule respond_fs)
    then show ?thesis
      using su rt Inr ar w1 w2 by (simp add: try_body_def)
  qed
qed

lemma transcribe_written:
  assumes "accepted env file diarize name"
    and "open_wb env (audio_path_of name) = None" and "contents file = Inr data"
    and "os_remove env (audio_path_of name) = Some e"
  shows "fs (snd (transcribe env file align diarize language w)) (resolve (audio_path_of name))
           = Some data"
proof -
  let ?p = "audio_path_of name"
  obtain r w1 where tb: "try_body env file align diarize language ?p w = (r, w1)"
    by (cases "try_body env file align diarize language ?p w")
  have p: "?p \<noteq> []" by (simp add: audio_path_of_def)
  have w1: "fs w1 (resolve ?p) = Some data"
    using try_body_written [OF assms(2,3), of align diarize language w] tb by simp
  show ?thesis
  proof (cases r)
    case (Inl x)
    let ?w = "print (Error_processing (exc_str x)) w1"
    have "fs ?w (resolve ?p) \<noteq> None" using w1 by (simp add: print_def)
    from cleanup_warning [OF assms(4) p this] have "fs (cleanup env ?p ?w) = fs w1"
      by (simp add: print_def)
    then show ?thesis
      using tb Inl w1 by (simp add: transcribe_accepted [OF assms(1)])
  next
    case (Inr x)
    have "fs w1 (resolve ?p) \<noteq> None" using w1 by simp
    from cleanup_warning [OF assms(4) p this] have "fs (cleanup env ?p w1) = fs w1"
      by simp
    then show ?thesis
      using tb Inr w1 by (simp add: transcribe_accepted [OF assms(1)])
  qed
qed

text \<open>
  C10. The first thing an accepted request does is to open, for writing, the literal
  concatenation of \<^verbatim>\<open>/tmp/\<close> and the filename of the upload; so two requests whose uploads
  have the same filename open the same path. The handler writes the upload to the
  location that path resolves to: the data is there when the body of the \<^verbatim>\<open>try\<close> ends,
  and it is still there after the request when the removal raises. For the filename
  \<^verbatim>\<open>../etc/passwd\<close> that location is \<^verbatim>\<open>/etc/passwd\<close>, outside \<^verbatim>\<open>/tmp\<close>.
\<close>

theorem temporary_path_from_filename:
  assumes "accepted env file1 diarize1 name" and "accepted env file2 diarize2 name"
  shows "prefix (calls w1 @ [Open_wb (''/tmp/'' @ name)])
           (calls (snd (transcribe env file1 align1 diarize1 language1 w1))) \<and>
         prefix (calls w2 @ [Open_wb (''/tmp/'' @ name)])
           (calls (snd (transcribe env file2 align2 diarize2 language2 w2))) \<and>
         (\<forall>data. open_wb env (''/tmp/'' @ name) = None \<longrightarrow> contents file1 = Inr data \<longrightarrow>
            fs (snd (try_body env file1 align1 diarize1 language1 (''/tmp/'' @ name) w1))
               (resolve (''/tmp/'' @ name)) = Some data \<and>
            (\<forall>e. os_remove env (''/tmp/'' @ name) = Some e \<longrightarrow>
               fs (snd (transcribe env file1 align1 diarize1 language1 w1))
                  (resolve (''/tmp/'' @ name)) = Some data)) \<and>
         resolve (''/tmp/'' @ ''../etc/passwd'') = [''etc'', ''passwd''] \<and>
         \<not> inside_tmp [''etc'', ''passwd'']"
proof (intro conjI allI impI)
  show "prefix (calls w1 @ [Open_wb (''/tmp/'' @ name)])
          (calls (snd (transcribe env file1 align1 diarize1 language1 w1)))"
    using assms(1) by (rule transcribe_calls)
  show "prefix (calls w2 @ [Open_wb (''/tmp/'' @ name)])
          (calls (snd (transcribe env file2 align2 diarize2 language2 w2)))"
    using assms(2) by (rule transcribe_calls)
  show "fs (snd (try_body env file1 align1 diarize1 language1 (''/tmp/'' @ name) w1))
           (resolve (''/tmp/'' @ name)) = Some data"
    if "open_wb env (''/tmp/'' @ name) = None" and "contents file1 = Inr data" for data
    using that by (rule try_body_written)
  show "fs (snd (transcribe env file1 align1 diarize1 language1 w1))
           (resolve (''/tmp/'' @ name)) = Some data"
    if "open_wb env (''/tmp/'' @ name) = None" and "contents file1 = Inr data"
      and "os_remove env (''/tmp/'' @ name) = Some e" for data e
    using transcribe_written [OF assms(1), of data e align1 language1 w1] that
    by (simp add: audio_path_of_def)
  show "resolve (''/tmp/'' @ ''../etc/passwd'') = [''etc'', ''passwd'']"
    by (simp add: resolve_def walk_def)
  show "\<not> inside_tmp [''etc'', ''passwd'']"
    by (simp add: inside_tmp_def)
qed

theorem temporary_path_from_filename_witness:
  "accepted demo_env_remove_raises demo_traversal False ''../etc/passwd'' \<and>
   accepted demo_env_remove_raises demo_traversal True ''../etc/passwd'' \<and>
   open_wb demo_env_remove_raises (''/tmp/'' @ ''../etc/passwd'') = None \<and>
   contents demo_traversal = Inr ''RIFF'' \<and>
   os_remove demo_env_remove_raises (''/tmp/'' @ ''../etc/passwd'')
     = Some (Error ''Permission denied'') \<and>
   prefix (calls empty_world @ [Open_wb (''/tmp/'' @ ''../etc/passwd'')])
     (calls (snd (transcribe demo_env_remove_raises demo_traversal True False None
                    empty_world))) \<and>
   prefix (calls empty_world @ [Open_wb (''/tmp/'' @ ''../etc/passwd'')])
     (calls (snd (transcribe demo_env_remove_raises demo_traversal False True None
                    empty_world))) \<and>
   fs (snd (try_body demo_env_remove_raises demo_traversal True False None
              (''/tmp/'' @ ''../etc/passwd'') empty_world))
      (resolve (''/tmp/'' @ ''../etc/passwd'')) = Some ''RIFF'' \<and>
   fs (snd (transcribe demo_env_remove_raises demo_traversal True False None empty_world))
      (resolve (''/tmp/'' @ ''../etc/passwd'')) = Some ''RIFF'' \<and>
   resolve (''/tmp/'' @ ''../etc/passwd'') = [''etc'', ''passwd''] \<and>
   \<not> inside_tmp [''etc'', ''passwd'']"
proof -
  have a: "accepted demo_env_remove_raises demo_traversal False ''../etc/passwd''"
    by (simp add: accepted_def demo_traversal_def)
  have b: "accepted demo_env_remove_raises demo_traversal True ''../etc/passwd''"
    by (simp add: accepted_def demo_traversal_def demo_env_remove_raises_def demo_env_def)
  have c: "open_wb demo_env_remove_raises (''/tmp/'' @ ''../etc/passwd'') = None"
    by (simp add: demo_env_remove_raises_def demo_env_def)
  have d: "contents demo_traversal = Inr ''RIFF''"
    by (simp add: demo_traversal_def)
  have e: "os_remove demo_env_remove_raises (''/tmp/'' @ ''../etc/passwd'')
             = Some (Error ''Permission denied'')"
    by (simp add: demo_env_remove_raises_def)
  note t = temporary_path_from_filename
             [OF a b, of empty_world True None empty_world False None]
  have f: "fs (snd (try_body demo_env_remove_raises demo_traversal True False None
                      (''/tmp/'' @ ''../etc/passwd'') empty_world))
              (resolve (''/tmp/'' @ ''../etc/passwd'')) = Some ''RIFF''"
    using t c d by blast
  have g: "fs (snd (transcribe demo_env_remove_raises demo_traversal True False None
                      empty_world))
              (resolve (''/tmp/'' @ ''../etc/passwd'')) = Some ''RIFF''"
    using t c d e by blast
  show ?thesis
    using a b c d e f g t by blast
qed

end
